theory Spec2Isabelle
  imports Main
begin

section \<open>The file as shipped\<close>

text \<open>
  The repository holds one script, \<^verbatim>\<open>static/admin/js/filtro_carpetas.js\<close>. Its 81 lines
  are given here byte for byte (the three accented letters are the two bytes of their
  UTF-8 encoding). The file has no tab, no carriage return and no final newline.
\<close>

definition source_lines :: "string list" where
  \<open>source_lines =
    [
     ''// (function($) {'',
     ''//     'use strict';'',
     ''    '',
     ''//     $(document).ready(function() {'',
     ''//         // Obtener los campos'',
     ''//         var numeralField = $('#id_numeral');'',
     ''//         var carpetaField = $('#id_carpeta');'',
     ''        '',
     ''//         if (numeralField.length && carpetaField.length) {'',
     ''//             // Guardar todas las opciones originales de carpetas'',
     ''//             var todasLasCarpetas = carpetaField.html();'',
     ''//             var carpetasOriginales = [];'',
     ''            '',
     ''//             carpetaField.find('option').each(function() {'',
     ''//                 var option = $(this);'',
     ''//                 carpetasOriginales.push({'',
     ''//                     value: option.val(),'',
     ''//                     text: option.text(),'',
     ''//                     numeral: option.attr('data-numeral')'',
     ''//                 });'',
     ''//             });'',
     ''            '',
     ''//             // Funci'' @ [CHR 0xC3, CHR 0xB3] @ ''n para filtrar carpetas'',
     ''//             function filtrarCarpetas() {'',
     ''//                 var numeralSeleccionado = numeralField.val();'',
     ''                '',
     ''//                 if (!numeralSeleccionado) {'',
     ''//                     // Si no hay numeral seleccionado, limpiar carpetas'',
     ''//                     carpetaField.html('<option value="">---------</option>');'',
     ''//                     carpetaField.prop('disabled', true);'',
     ''//                     return;'',
     ''//                 }'',
     ''                '',
     ''//                 // Habilitar el campo de carpetas'',
     ''//                 carpetaField.prop('disabled', false);'',
     ''                '',
     ''//                 // Hacer petici'' @ [CHR 0xC3, CHR 0xB3] @ ''n AJAX para obtener carpetas del numeral'',
     ''//                 $.ajax({'',
     ''//                     url: '/admin/get-carpetas-por-numeral/','',
     ''//                     data: {'',
     ''//                         'numeral_id': numeralSeleccionado,'',
     ''//                         'app': window.location.pathname.split('/')[2] // transparencia, comude, etc.'',
     ''//                     },'',
     ''//                     dataType: 'json','',
     ''//                     success: function(data) {'',
     ''//                         // Limpiar opciones actuales'',
     ''//                         carpetaField.html('<option value="">---------</option>');'',
     ''                        '',
     ''//                         // Agregar las carpetas filtradas'',
     ''//                         $.each(data.carpetas, function(index, carpeta) {'',
     ''//                             carpetaField.append('',
     ''//                                 $('<option></option>')'',
     ''//                                     .attr('value', carpeta.id)'',
     ''//                                     .text(carpeta.ruta_completa)'',
     ''//                             );'',
     ''//                         });'',
     ''                        '',
     ''//                         // Si hay un valor previamente seleccionado, mantenerlo'',
     ''//                         var valorActual = carpetaField.attr('data-selected');'',
     ''//                         if (valorActual) {'',
     ''//                             carpetaField.val(valorActual);'',
     ''//                         }'',
     ''//                     },'',
     ''//                     error: function() {'',
     ''//                         console.error('Error al cargar las carpetas');'',
     ''//                     }'',
     ''//                 });'',
     ''//             }'',
     ''            '',
     ''//             // Ejecutar al cambiar el numeral'',
     ''//             numeralField.on('change', filtrarCarpetas);'',
     ''            '',
     ''//             // Ejecutar al cargar la p'' @ [CHR 0xC3, CHR 0xA1] @ ''gina (para edici'' @ [CHR 0xC3, CHR 0xB3] @ ''n)'',
     ''//             if (numeralField.val()) {'',
     ''//                 filtrarCarpetas();'',
     ''//             } else {'',
     ''//                 carpetaField.prop('disabled', true);'',
     ''//             }'',
     ''//         }'',
     ''//     });'',
     ''// })(django.jQuery);''
    ]\<close>

text \<open>
  JavaScript white space inside a line (only the space and the tab matter here), a blank
  line, and a line that is a \<^verbatim>\<open>//\<close> comment from its first non-blank character on.
\<close>

definition js_space :: "char \<Rightarrow> bool" where
  "js_space c = (c = CHR '' '' \<or> c = CHR 0x09)"

definition is_blank :: "string \<Rightarrow> bool" where
  "is_blank l = (dropWhile js_space l = [])"

definition is_line_comment :: "string \<Rightarrow> bool" where
  "is_line_comment l = (take 2 (dropWhile js_space l) = ''//'')"

text \<open>
  What a line leaves for the parser: nothing when it is blank or a comment, its text
  otherwise. The live text of a file is what all its lines leave.
\<close>

definition live_of_line :: "string \<Rightarrow> string" where
  "live_of_line l = (if is_line_comment l then [] else dropWhile js_space l)"

definition live_text :: "string list \<Rightarrow> string" where
  "live_text ls = concat (map live_of_line ls)"

section \<open>The program text inside the comments\<close>

text \<open>
  Every statement of the file sits behind \<^verbatim>\<open>//\<close>. The definitions of this section embed
  that program text, statement by statement, as the controller it describes: what would run
  if the comment marks were removed. The two \<^verbatim>\<open><select>\<close> controls are single-selection
  drop-downs, \<^verbatim>\<open>#id_numeral\<close> (the parent) and \<^verbatim>\<open>#id_carpeta\<close> (the dependent one).
\<close>

subsection \<open>The page\<close>

text \<open>
  An \<^verbatim>\<open><option>\<close>: its value, its text and its \<^verbatim>\<open>data-numeral\<close> attribute, the three
  things the script reads from it.
\<close>

record option_el =
  opt_value :: string
  opt_text :: string
  opt_data_numeral :: "string option"

text \<open>
  The dependent control: its options in document order, the \<^verbatim>\<open>disabled\<close> property, the
  \<^verbatim>\<open>data-selected\<close> attribute (absent: \<open>None\<close>) and the selected index (\<open>None\<close> is
  the DOM's \<open>-1\<close>, nothing selected).
\<close>

record select_el =
  options :: "option_el list"
  disabled :: bool
  data_selected :: "string option"
  selectedIndex :: "nat option"

text \<open>
  The parent control is read only through \<^verbatim>\<open>.val()\<close>, so it is modelled by that value:
  \<open>None\<close> is the \<^verbatim>\<open>null\<close> of a drop-down with nothing selected.
\<close>

record numeral_el =
  num_value :: "string option"

text \<open>One record of \<^verbatim>\<open>data.carpetas\<close>; the id is the string \<^verbatim>\<open>.attr('value', id)\<close> writes.\<close>

record carpeta =
  carpeta_id :: string
  ruta_completa :: string

text \<open>The settings of one \<^verbatim>\<open>$.ajax\<close> call: the url and the two query parameters.\<close>

record request =
  url :: string
  numeral_id :: string
  app :: "string option"

text \<open>
  What the script does to the world outside its own variables, in the order it does it:
  the jQuery calls that write to \<^verbatim>\<open>#id_carpeta\<close>, the event binding, the network call and
  the console report.
\<close>

datatype effect =
    SetHtml "option_el list"
  | SetDisabled bool
  | Append option_el
  | SetVal string
  | BindChange
  | Ajax request
  | ConsoleError string

text \<open>
  The world: the two controls (\<open>None\<close> when the page has no such element), the page's
  path, the script's variables \<^verbatim>\<open>todasLasCarpetas\<close> and \<^verbatim>\<open>carpetasOriginales\<close>
  (\<open>None\<close> while unassigned), whether \<^verbatim>\<open>filtrarCarpetas\<close> is bound to the parent's change
  event, the requests in flight, and the effects so far.
\<close>

record world =
  numeralField :: "numeral_el option"
  carpetaField :: "select_el option"
  pathname :: string
  todasLasCarpetas :: "option_el list option"
  carpetasOriginales :: "option_el list option"
  on_change :: bool
  pending :: "request list"
  trace :: "effect list"

text \<open>The world when the document becomes ready, before the script's callback has run.\<close>

definition document_loaded :: "numeral_el option \<Rightarrow> select_el option \<Rightarrow> string \<Rightarrow> world" where
  "document_loaded n c p =
     \<lparr>numeralField = n, carpetaField = c, pathname = p, todasLasCarpetas = None,
      carpetasOriginales = None, on_change = False, pending = [], trace = []\<rparr>"

subsection \<open>JavaScript and jQuery primitives\<close>

text \<open>Truthiness of what \<^verbatim>\<open>.val()\<close> and \<^verbatim>\<open>.attr()\<close> return: a non-empty string.\<close>

definition js_truthy :: "string option \<Rightarrow> bool" where
  "js_truthy v = (case v of None \<Rightarrow> False | Some s \<Rightarrow> s \<noteq> [])"

text \<open>\<^verbatim>\<open>s.split(d)\<close> for a one-character separator: never empty, keeps empty pieces.\<close>

fun split_on :: "char \<Rightarrow> string \<Rightarrow> string list" where
  "split_on d [] = [[]]"
| "split_on d (c # cs) =
     (if c = d then [] # split_on d cs
      else (case split_on d cs of [] \<Rightarrow> [[c]] | x # xs \<Rightarrow> (c # x) # xs))"

text \<open>Array indexing: \<^verbatim>\<open>undefined\<close> past the end.\<close>

definition js_index :: "'a list \<Rightarrow> nat \<Rightarrow> 'a option" where
  "js_index xs i = (if i < length xs then Some (xs ! i) else None)"

text \<open>\<^verbatim>\<open>window.location.pathname.split('/')[2]\<close>\<close>

definition app_tag :: "string \<Rightarrow> string option" where
  "app_tag p = js_index (split_on CHR ''/'' p) 2"

text \<open>\<^verbatim>\<open>numeralField.val()\<close>; on an empty jQuery set it is \<^verbatim>\<open>undefined\<close>.\<close>

definition numeral_val :: "world \<Rightarrow> string option" where
  "numeral_val w = (case numeralField w of None \<Rightarrow> None | Some n \<Rightarrow> num_value n)"

text \<open>The option \<^verbatim>\<open><option value="">---------</option>\<close>.\<close>

definition placeholder :: option_el where
  "placeholder = \<lparr>opt_value = [], opt_text = ''---------'', opt_data_numeral = None\<rparr>"

text \<open>
  \<^verbatim>\<open>carpetaField.html(...)\<close> replaces the options; a single-selection drop-down then shows
  its first option. A jQuery setter on an empty set changes no element.
\<close>

definition set_html :: "option_el list \<Rightarrow> world \<Rightarrow> world" where
  "set_html os w =
     w\<lparr>carpetaField :=
          map_option (\<lambda>c. c\<lparr>options := os, selectedIndex := (if os = [] then None else Some 0)\<rparr>)
            (carpetaField w),
       trace := trace w @ [SetHtml os]\<rparr>"

text \<open>\<^verbatim>\<open>carpetaField.prop('disabled', b)\<close>\<close>

definition prop_disabled :: "bool \<Rightarrow> world \<Rightarrow> world" where
  "prop_disabled b w =
     w\<lparr>carpetaField := map_option (\<lambda>c. c\<lparr>disabled := b\<rparr>) (carpetaField w),
       trace := trace w @ [SetDisabled b]\<rparr>"

text \<open>
  \<^verbatim>\<open>carpetaField.append(o)\<close> adds the option at the end; a drop-down with nothing selected
  then shows its first option.
\<close>

definition append_option :: "option_el \<Rightarrow> world \<Rightarrow> world" where
  "append_option o_new w =
     w\<lparr>carpetaField :=
          map_option (\<lambda>c. c\<lparr>options := options c @ [o_new],
                             selectedIndex := (case selectedIndex c of None \<Rightarrow> Some 0 | Some i \<Rightarrow> Some i)\<rparr>)
            (carpetaField w),
       trace := trace w @ [Append o_new]\<rparr>"

text \<open>The first index whose option has the value \<open>v\<close>.\<close>

fun index_of :: "string \<Rightarrow> option_el list \<Rightarrow> nat option" where
  "index_of v [] = None"
| "index_of v (x # xs) =
     (if opt_value x = v then Some 0 else map_option Suc (index_of v xs))"

text \<open>
  \<^verbatim>\<open>carpetaField.val(v)\<close>: jQuery selects the option with that value, and sets the selected
  index to \<open>-1\<close> when there is none.
\<close>

definition set_val :: "string \<Rightarrow> world \<Rightarrow> world" where
  "set_val v w =
     w\<lparr>carpetaField := map_option (\<lambda>c. c\<lparr>selectedIndex := index_of v (options c)\<rparr>) (carpetaField w),
       trace := trace w @ [SetVal v]\<rparr>"

text \<open>\<^verbatim>\<open>carpetaField.val()\<close>: the value of the selected option, \<^verbatim>\<open>null\<close> when there is none.\<close>

definition select_val :: "select_el \<Rightarrow> string option" where
  "select_val c =
     (case selectedIndex c of
        None \<Rightarrow> None
      | Some i \<Rightarrow> map_option opt_value (js_index (options c) i))"

text \<open>\<^verbatim>\<open>carpetaField.attr('data-selected')\<close>\<close>

definition attr_data_selected :: "world \<Rightarrow> string option" where
  "attr_data_selected w = (case carpetaField w of None \<Rightarrow> None | Some c \<Rightarrow> data_selected c)"

text \<open>\<^verbatim>\<open>$.ajax(settings)\<close> sends the request and returns at once.\<close>

definition ajax :: "request \<Rightarrow> world \<Rightarrow> world" where
  "ajax r w = w\<lparr>pending := pending w @ [r], trace := trace w @ [Ajax r]\<rparr>"

text \<open>\<^verbatim>\<open>console.error(msg)\<close>\<close>

definition console_error :: "string \<Rightarrow> world \<Rightarrow> world" where
  "console_error msg w = w\<lparr>trace := trace w @ [ConsoleError msg]\<rparr>"

subsection \<open>The script\<close>

text \<open>
  \<^verbatim>\<open>$('<option></option>').attr('value', carpeta.id).text(carpeta.ruta_completa)\<close>
\<close>

definition option_of_carpeta :: "carpeta \<Rightarrow> option_el" where
  "option_of_carpeta k =
     \<lparr>opt_value = carpeta_id k, opt_text = ruta_completa k, opt_data_numeral = None\<rparr>"

text \<open>The \<^verbatim>\<open>success\<close> callback (lines 45 to 63).\<close>

definition on_success :: "carpeta list \<Rightarrow> world \<Rightarrow> world" where
  "on_success carpetas w =
     (let w1 = set_html [placeholder] w;
          w2 = fold (\<lambda>k. append_option (option_of_carpeta k)) carpetas w1;
          valorActual = attr_data_selected w2
      in case valorActual of
           None \<Rightarrow> w2
         | Some v \<Rightarrow> if v \<noteq> [] then set_val v w2 else w2)"

text \<open>The \<^verbatim>\<open>error\<close> callback (lines 64 to 66).\<close>

definition on_error :: "world \<Rightarrow> world" where
  "on_error w = console_error ''Error al cargar las carpetas'' w"

text \<open>\<^verbatim>\<open>filtrarCarpetas\<close> (lines 24 to 68).\<close>

definition clear_carpetas :: "world \<Rightarrow> world" where
  "clear_carpetas w = prop_disabled True (set_html [placeholder] w)"

definition fetch_carpetas :: "string \<Rightarrow> world \<Rightarrow> world" where
  "fetch_carpetas numeralSeleccionado w =
     ajax \<lparr>url = ''/admin/get-carpetas-por-numeral/'',
           numeral_id = numeralSeleccionado,
           app = app_tag (pathname w)\<rparr>
       (prop_disabled False w)"

definition filtrarCarpetas :: "world \<Rightarrow> world" where
  "filtrarCarpetas w =
     (case numeral_val w of
        None \<Rightarrow> clear_carpetas w
      | Some numeralSeleccionado \<Rightarrow>
          if numeralSeleccionado = [] then clear_carpetas w
          else fetch_carpetas numeralSeleccionado w)"

text \<open>
  The lines 11 to 21: \<^verbatim>\<open>todasLasCarpetas\<close> takes the control's markup, here its options, and
  \<^verbatim>\<open>carpetasOriginales\<close> one object per option with its value, text and numeral.
\<close>

definition save_options :: "world \<Rightarrow> world" where
  "save_options w =
     w\<lparr>todasLasCarpetas := map_option options (carpetaField w),
       carpetasOriginales :=
         Some (case carpetaField w of
                 None \<Rightarrow> []
               | Some c \<Rightarrow>
                   map (\<lambda>x. \<lparr>opt_value = opt_value x, opt_text = opt_text x,
                             opt_data_numeral = opt_data_numeral x\<rparr>) (options c))\<rparr>"

text \<open>\<^verbatim>\<open>numeralField.on('change', filtrarCarpetas)\<close>\<close>

definition bind_change :: "world \<Rightarrow> world" where
  "bind_change w = w\<lparr>on_change := True, trace := trace w @ [BindChange]\<rparr>"

text \<open>The \<^verbatim>\<open>$(document).ready\<close> callback (lines 4 to 80).\<close>

definition ready :: "world \<Rightarrow> world" where
  "ready w =
     (if numeralField w \<noteq> None \<and> carpetaField w \<noteq> None then
        (let w1 = bind_change (save_options w)
         in if js_truthy (numeral_val w1) then filtrarCarpetas w1
            else prop_disabled True w1)
      else w)"

subsection \<open>Events\<close>

text \<open>
  After the page has loaded, three things can happen: the user gives the parent control a
  new value, which fires its change event; a request in flight, named by its place among
  those in flight, comes back with a payload; or it fails. An event that cannot happen
  (no parent control, no such request) leaves the world as it is.
\<close>

datatype event =
    Change "string option"
  | Success nat "carpeta list"
  | Failure nat

definition resolve :: "nat \<Rightarrow> world \<Rightarrow> world" where
  "resolve k w = w\<lparr>pending := take k (pending w) @ drop (Suc k) (pending w)\<rparr>"

fun step :: "event \<Rightarrow> world \<Rightarrow> world" where
  "step (Change v) w =
     (case numeralField w of
        None \<Rightarrow> w
      | Some n \<Rightarrow>
          (let w1 = w\<lparr>numeralField := Some (n\<lparr>num_value := v\<rparr>)\<rparr>
           in if on_change w1 then filtrarCarpetas w1 else w1))"
| "step (Success k carpetas) w =
     (if k < length (pending w) then on_success carpetas (resolve k w) else w)"
| "step (Failure k) w =
     (if k < length (pending w) then on_error (resolve k w) else w)"

text \<open>A sequence of events, the first of the list first.\<close>

definition run :: "event list \<Rightarrow> world \<Rightarrow> world" where
  "run evs w = fold step evs w"

text \<open>The state the claims speak of: the script has found both controls and bound its handler.\<close>

definition installed :: "world \<Rightarrow> bool" where
  "installed w = (numeralField w \<noteq> None \<and> carpetaField w \<noteq> None \<and> on_change w)"

text \<open>Reading the dependent control.\<close>

definition carpeta_options :: "world \<Rightarrow> option_el list" where
  "carpeta_options w = (case carpetaField w of None \<Rightarrow> [] | Some c \<Rightarrow> options c)"

definition carpeta_disabled :: "world \<Rightarrow> bool" where
  "carpeta_disabled w = (case carpetaField w of None \<Rightarrow> False | Some c \<Rightarrow> disabled c)"

definition carpeta_val :: "world \<Rightarrow> string option" where
  "carpeta_val w = (case carpetaField w of None \<Rightarrow> None | Some c \<Rightarrow> select_val c)"

definition requests_in :: "effect list \<Rightarrow> request list" where
  "requests_in es = concat (map (\<lambda>e. case e of Ajax r \<Rightarrow> [r] | _ \<Rightarrow> []) es)"

text \<open>
  Loading a script file whose lines leave no live text evaluates the empty program: the
  world stays as it is. A file with live text is outside this model (\<open>None\<close>).
\<close>

definition load_file :: "string list \<Rightarrow> world \<Rightarrow> world option" where
  "load_file ls w = (if live_text ls = [] then Some w else None)"

text \<open>A page used in the examples: the add form of the transparencia application.\<close>

definition example_carpeta :: select_el where
  "example_carpeta =
     \<lparr>options = [placeholder,
                 \<lparr>opt_value = ''7'', opt_text = ''Actas/2023'', opt_data_numeral = Some ''3''\<rparr>],
      disabled = False, data_selected = None, selectedIndex = Some 0\<rparr>"

definition example_page :: world where
  "example_page =
     document_loaded (Some \<lparr>num_value = Some []\<rparr>) (Some example_carpeta)
       ''/admin/transparencia/documento/add/''"

definition example_data :: "carpeta list" where
  "example_data =
     [\<lparr>carpeta_id = ''12'', ruta_completa = ''Numeral 5/Contratos''\<rparr>,
      \<lparr>carpeta_id = ''15'', ruta_completa = ''Numeral 5/Contratos/2024''\<rparr>]"

text \<open>
  The dependent control is disabled exactly when \<^verbatim>\<open>numeralField.val()\<close> is falsy.
\<close>

definition consistent :: "world \<Rightarrow> bool" where
  "consistent w = (carpeta_disabled w = (\<not> js_truthy (numeral_val w)))"

subsection \<open>Exceptions\<close>

text \<open>
  What comes back for a request: a body that parses as JSON, or a failure (network error,
  error status, body that does not parse). A body is either \<^verbatim>\<open>null\<close> (\<open>None\<close>) or an object
  whose \<^verbatim>\<open>carpetas\<close> is the list of records.
\<close>

datatype response =
    Body "carpeta list option"
  | Failed

text \<open>
  A callback either returns, or throws and leaves the world as it was at the throw. The only
  expression of the script that can throw is \<^verbatim>\<open>data.carpetas\<close> on line 50, a
  \<^verbatim>\<open>TypeError\<close> when \<^verbatim>\<open>data\<close> is \<^verbatim>\<open>null\<close>; line 47 has then already replaced the options.
  Nothing catches it, so it reaches the page.
\<close>

datatype js_exception = TypeError

datatype outcome =
    Returned world
  | Threw js_exception world

text \<open>Delivering the response of the request at place \<open>k\<close> among those in flight.\<close>

definition deliver :: "nat \<Rightarrow> response \<Rightarrow> world \<Rightarrow> outcome" where
  "deliver k r w =
     (if k < length (pending w) then
        (case r of
           Failed \<Rightarrow> Returned (step (Failure k) w)
         | Body None \<Rightarrow> Threw TypeError (set_html [placeholder] (resolve k w))
         | Body (Some carpetas) \<Rightarrow> Returned (step (Success k carpetas) w))
      else Returned w)"

section \<open>Properties of the primitives and callbacks\<close>

lemma fold_append_option:
  "fold (\<lambda>k. append_option (f k)) ks w =
     (if ks = [] then w else
      w\<lparr>carpetaField :=
          map_option (\<lambda>c. c\<lparr>options := options c @ map f ks,
                             selectedIndex := (case selectedIndex c of None \<Rightarrow> Some 0 | Some i \<Rightarrow> Some i)\<rparr>)
            (carpetaField w),
        trace := trace w @ map (\<lambda>k. Append (f k)) ks\<rparr>)"
proof (induction ks arbitrary: w)
  case Nil
  show ?case by simp
next
  case (Cons k ks)
  have "fold (\<lambda>k. append_option (f k)) (k # ks) w =
        fold (\<lambda>k. append_option (f k)) ks (append_option (f k) w)"
    by simp
  also have "\<dots> = (if ks = [] then append_option (f k) w else
      (append_option (f k) w)\<lparr>carpetaField :=
          map_option (\<lambda>c. c\<lparr>options := options c @ map f ks,
                             selectedIndex := (case selectedIndex c of None \<Rightarrow> Some 0 | Some i \<Rightarrow> Some i)\<rparr>)
            (carpetaField (append_option (f k) w)),
        trace := trace (append_option (f k) w) @ map (\<lambda>k. Append (f k)) ks\<rparr>)"
    by (rule Cons.IH)
  also have "\<dots> = w\<lparr>carpetaField :=
          map_option (\<lambda>c. c\<lparr>options := options c @ map f (k # ks),
                             selectedIndex := (case selectedIndex c of None \<Rightarrow> Some 0 | Some i \<Rightarrow> Some i)\<rparr>)
            (carpetaField w),
        trace := trace w @ map (\<lambda>k. Append (f k)) (k # ks)\<rparr>"
    by (cases "carpetaField w") (simp_all add: append_option_def split: option.splits)
  finally show ?case by simp
qed

lemma on_success_carpeta:
  assumes "carpetaField w = Some c"
  shows "carpetaField (on_success ks w) =
     Some (c\<lparr>options := placeholder # map option_of_carpeta ks,
             selectedIndex :=
               (case data_selected c of
                  None \<Rightarrow> Some 0
                | Some v \<Rightarrow> if v \<noteq> [] then index_of v (placeholder # map option_of_carpeta ks)
                           else Some 0)\<rparr>)"
  using assms
  by (simp add: on_success_def Let_def fold_append_option set_html_def set_val_def
      attr_data_selected_def split: option.splits)

lemma on_success_frame:
  "numeralField (on_success ks w) = numeralField w"
  "pending (on_success ks w) = pending w"
  "on_change (on_success ks w) = on_change w"
  "pathname (on_success ks w) = pathname w"
  "todasLasCarpetas (on_success ks w) = todasLasCarpetas w"
  "carpetasOriginales (on_success ks w) = carpetasOriginales w"
  by (simp_all add: on_success_def Let_def fold_append_option set_html_def set_val_def
      attr_data_selected_def split: option.splits)

lemma on_success_trace:
  "trace (on_success ks w) =
     trace w @ SetHtml [placeholder] # map (\<lambda>k. Append (option_of_carpeta k)) ks @
       (case attr_data_selected w of None \<Rightarrow> [] | Some v \<Rightarrow> if v \<noteq> [] then [SetVal v] else [])"
  by (cases "carpetaField w") (simp_all add: on_success_def Let_def fold_append_option set_html_def set_val_def
      attr_data_selected_def split: option.splits)

lemma index_of_Some:
  "index_of v xs = Some i \<Longrightarrow> i < length xs \<and> opt_value (xs ! i) = v"
proof (induction xs arbitrary: i)
  case Nil
  then show ?case by simp
next
  case (Cons x xs)
  then show ?case by (auto split: if_splits)
qed

lemma index_of_mem:
  "v \<in> opt_value ` set xs \<Longrightarrow> \<exists>i. index_of v xs = Some i"
  by (induction xs) auto

lemma run_Nil: "run [] w = w" by (simp add: run_def)
lemma run_Cons: "run (e # evs) w = run evs (step e w)" by (simp add: run_def)
lemma run_append: "run (xs @ ys) w = run ys (run xs w)" by (simp add: run_def)

lemma filtrarCarpetas_falsy:
  "\<not> js_truthy (numeral_val w) \<Longrightarrow> filtrarCarpetas w = clear_carpetas w"
  by (simp add: filtrarCarpetas_def js_truthy_def split: option.splits)

lemma filtrarCarpetas_truthy:
  "numeral_val w = Some v \<Longrightarrow> v \<noteq> [] \<Longrightarrow> filtrarCarpetas w = fetch_carpetas v w"
  by (simp add: filtrarCarpetas_def)

lemma clear_carpetas_fields:
  "numeralField (clear_carpetas w) = numeralField w"
  "on_change (clear_carpetas w) = on_change w"
  "pending (clear_carpetas w) = pending w"
  "pathname (clear_carpetas w) = pathname w"
  "trace (clear_carpetas w) = trace w @ [SetHtml [placeholder], SetDisabled True]"
  "carpetaField (clear_carpetas w) =
     map_option (\<lambda>c. c\<lparr>options := [placeholder], selectedIndex := Some 0, disabled := True\<rparr>)
       (carpetaField w)"
  by (cases "carpetaField w"; simp add: clear_carpetas_def prop_disabled_def set_html_def)+

lemma fetch_carpetas_fields:
  "numeralField (fetch_carpetas v w) = numeralField w"
  "on_change (fetch_carpetas v w) = on_change w"
  "pathname (fetch_carpetas v w) = pathname w"
  "pending (fetch_carpetas v w) =
     pending w @ [\<lparr>url = ''/admin/get-carpetas-por-numeral/'', numeral_id = v,
                   app = app_tag (pathname w)\<rparr>]"
  "trace (fetch_carpetas v w) =
     trace w @ [SetDisabled False,
                Ajax \<lparr>url = ''/admin/get-carpetas-por-numeral/'', numeral_id = v,
                      app = app_tag (pathname w)\<rparr>]"
  "carpetaField (fetch_carpetas v w) = map_option (\<lambda>c. c\<lparr>disabled := False\<rparr>) (carpetaField w)"
  by (simp_all add: fetch_carpetas_def prop_disabled_def ajax_def)

lemma filtrarCarpetas_keeps:
  "numeralField (filtrarCarpetas w) = numeralField w"
  "on_change (filtrarCarpetas w) = on_change w"
  "pathname (filtrarCarpetas w) = pathname w"
  "(carpetaField (filtrarCarpetas w) = None) = (carpetaField w = None)"
  by (simp_all add: filtrarCarpetas_def clear_carpetas_fields fetch_carpetas_fields
      split: option.splits)

lemma filtrarCarpetas_numeral_val:
  "numeral_val (filtrarCarpetas w) = numeral_val w"
  by (simp add: numeral_val_def filtrarCarpetas_keeps)

lemma filtrarCarpetas_installed:
  "installed w \<Longrightarrow> installed (filtrarCarpetas w)"
  by (auto simp: installed_def filtrarCarpetas_def clear_carpetas_fields fetch_carpetas_fields
      split: option.splits)

lemma filtrarCarpetas_disabled:
  "carpetaField w \<noteq> None \<Longrightarrow>
   carpeta_disabled (filtrarCarpetas w) = (\<not> js_truthy (numeral_val w))"
  by (auto simp: filtrarCarpetas_def clear_carpetas_fields fetch_carpetas_fields
      carpeta_disabled_def js_truthy_def split: option.splits)

lemma on_error_fields:
  "numeralField (on_error w) = numeralField w"
  "carpetaField (on_error w) = carpetaField w"
  "on_change (on_error w) = on_change w"
  "pending (on_error w) = pending w"
  "pathname (on_error w) = pathname w"
  "trace (on_error w) = trace w @ [ConsoleError ''Error al cargar las carpetas'']"
  by (simp_all add: on_error_def console_error_def)

lemma resolve_fields:
  "numeralField (resolve k w) = numeralField w"
  "carpetaField (resolve k w) = carpetaField w"
  "on_change (resolve k w) = on_change w"
  "pathname (resolve k w) = pathname w"
  "trace (resolve k w) = trace w"
  "pending (resolve k w) = take k (pending w) @ drop (Suc k) (pending w)"
  by (simp_all add: resolve_def)

lemma numeral_val_keeps:
  "numeral_val (on_success ks w) = numeral_val w"
  "numeral_val (on_error w) = numeral_val w"
  "numeral_val (resolve k w) = numeral_val w"
  "numeral_val (prop_disabled b w) = numeral_val w"
  by (simp_all add: numeral_val_def on_success_frame on_error_fields resolve_fields
      prop_disabled_def)

lemma carpeta_disabled_keeps:
  "carpeta_disabled (on_error w) = carpeta_disabled w"
  "carpeta_disabled (resolve k w) = carpeta_disabled w"
  by (simp_all add: carpeta_disabled_def on_error_fields resolve_fields)

lemma carpeta_disabled_on_success:
  "carpeta_disabled (on_success ks w) = carpeta_disabled w"
proof (cases "carpetaField w")
  case None
  then show ?thesis
    by (simp add: carpeta_disabled_def on_success_def Let_def fold_append_option set_html_def
        set_val_def attr_data_selected_def split: option.splits)
next
  case (Some c)
  then show ?thesis
    by (simp add: carpeta_disabled_def on_success_carpeta)
qed

lemma step_installed: "installed w \<Longrightarrow> installed (step e w)"
proof (cases e)
  case (Change v)
  assume "installed w"
  then obtain n where n: "numeralField w = Some n" by (auto simp: installed_def)
  from \<open>installed w\<close> have "installed (w\<lparr>numeralField := Some (n\<lparr>num_value := v\<rparr>)\<rparr>)"
    by (simp add: installed_def)
  from filtrarCarpetas_installed [OF this] \<open>installed w\<close> n show ?thesis using Change
    by (simp add: installed_def)
next
  case (Success k ks)
  assume "installed w"
  then obtain c where "carpetaField (resolve k w) = Some c"
    by (auto simp: installed_def resolve_fields)
  with \<open>installed w\<close> show ?thesis using Success
    by (auto simp: installed_def on_success_frame on_success_carpeta resolve_fields)
next
  case (Failure k)
  assume "installed w"
  then show ?thesis using Failure
    by (auto simp: installed_def on_error_fields resolve_fields)
qed

lemma run_installed: "installed w \<Longrightarrow> installed (run evs w)"
  by (induction evs arbitrary: w) (simp_all add: run_Nil run_Cons step_installed)

lemma step_consistent:
  assumes "installed w" "consistent w"
  shows "consistent (step e w)"
proof (cases e)
  case (Change v)
  from assms(1) obtain n where n: "numeralField w = Some n" by (auto simp: installed_def)
  from assms(1) have "carpetaField (w\<lparr>numeralField := Some (n\<lparr>num_value := v\<rparr>)\<rparr>) \<noteq> None"
    by (simp add: installed_def)
  from filtrarCarpetas_disabled [OF this] assms(1) n show ?thesis using Change
    by (simp add: consistent_def installed_def filtrarCarpetas_numeral_val)
next
  case (Success k ks)
  then show ?thesis using assms(2)
    by (simp add: consistent_def carpeta_disabled_on_success numeral_val_keeps
        carpeta_disabled_keeps)
next
  case (Failure k)
  then show ?thesis using assms(2)
    by (simp add: consistent_def numeral_val_keeps carpeta_disabled_keeps)
qed

lemma run_consistent:
  "installed w \<Longrightarrow> consistent w \<Longrightarrow> consistent (run evs w)"
  by (induction evs arbitrary: w) (simp_all add: run_Nil run_Cons step_installed step_consistent)

lemma ready_present:
  "ready (document_loaded (Some n) (Some c) p) =
     (if js_truthy (num_value n)
      then filtrarCarpetas (bind_change (save_options (document_loaded (Some n) (Some c) p)))
      else prop_disabled True (bind_change (save_options (document_loaded (Some n) (Some c) p))))"
proof -
  have "numeral_val (bind_change (save_options (document_loaded (Some n) (Some c) p))) = num_value n"
    by (simp add: bind_change_def save_options_def document_loaded_def numeral_val_def)
  moreover have "numeralField (document_loaded (Some n) (Some c) p) \<noteq> None"
    "carpetaField (document_loaded (Some n) (Some c) p) \<noteq> None"
    by (simp_all add: document_loaded_def)
  ultimately show ?thesis
    unfolding ready_def Let_def by simp
qed

lemma installed_bound:
  "installed (bind_change (save_options (document_loaded (Some n) (Some c) p)))"
  by (simp add: installed_def bind_change_def save_options_def document_loaded_def)

lemma prop_disabled_fields:
  "numeralField (prop_disabled b w) = numeralField w"
  "on_change (prop_disabled b w) = on_change w"
  "pending (prop_disabled b w) = pending w"
  "pathname (prop_disabled b w) = pathname w"
  "trace (prop_disabled b w) = trace w @ [SetDisabled b]"
  "carpetaField (prop_disabled b w) = map_option (\<lambda>c. c\<lparr>disabled := b\<rparr>) (carpetaField w)"
  by (simp_all add: prop_disabled_def)

lemma prop_disabled_installed: "installed w \<Longrightarrow> installed (prop_disabled b w)"
  by (auto simp: installed_def prop_disabled_fields)

lemma ready_installed:
  "installed (ready (document_loaded (Some n) (Some c) p))"
  by (simp add: ready_present filtrarCarpetas_installed prop_disabled_installed installed_bound)

lemma ready_consistent:
  "consistent (ready (document_loaded (Some n) (Some c) p))"
proof -
  let ?w1 = "bind_change (save_options (document_loaded (Some n) (Some c) p))"
  have nv: "numeral_val ?w1 = num_value n"
    by (simp add: bind_change_def save_options_def document_loaded_def numeral_val_def)
  have cf: "carpetaField ?w1 \<noteq> None"
    by (simp add: bind_change_def save_options_def document_loaded_def)
  show ?thesis
  proof (cases "js_truthy (num_value n)")
    case True
    then have "consistent (filtrarCarpetas ?w1)"
      unfolding consistent_def
      by (simp only: filtrarCarpetas_disabled [OF cf] filtrarCarpetas_numeral_val nv)
    with True show ?thesis by (simp only: ready_present if_True)
  next
    case False
    have "carpeta_disabled (prop_disabled True ?w1)"
      using cf by (auto simp: carpeta_disabled_def prop_disabled_fields)
    moreover have "numeral_val (prop_disabled True ?w1) = num_value n"
      using nv by (simp only: numeral_val_keeps)
    ultimately have "consistent (prop_disabled True ?w1)"
      using False by (simp only: consistent_def) simp
    with False show ?thesis by (simp only: ready_present if_False)
  qed
qed


section \<open>Events and page load\<close>

lemmas world_eval =
  step.simps example_page_def example_carpeta_def example_data_def document_loaded_def ready_def run_def
  Let_def bind_change_def save_options_def filtrarCarpetas_def clear_carpetas_def
  fetch_carpetas_def prop_disabled_def set_html_def append_option_def set_val_def ajax_def
  console_error_def on_error_def on_success_def resolve_def numeral_val_def js_truthy_def
  attr_data_selected_def app_tag_def js_index_def placeholder_def option_of_carpeta_def
  carpeta_options_def carpeta_disabled_def carpeta_val_def select_val_def installed_def
  requests_in_def

declare step.simps [simp del]

lemma numeral_el_update: "(n::numeral_el)\<lparr>num_value := v\<rparr> = \<lparr>num_value = v\<rparr>"
  by (cases n) simp

lemma step_change_fetch:
  assumes "installed w" "v \<noteq> []"
  shows "step (Change (Some v)) w =
           fetch_carpetas v (w\<lparr>numeralField := Some \<lparr>num_value = Some v\<rparr>\<rparr>)"
proof -
  from assms(1) obtain n where n: "numeralField w = Some n" and b: "on_change w"
    by (auto simp: installed_def)
  have "numeral_val (w\<lparr>numeralField := Some (n\<lparr>num_value := Some v\<rparr>)\<rparr>) = Some v"
    by (simp add: numeral_val_def)
  from filtrarCarpetas_truthy [OF this assms(2)] n b show ?thesis
    by (simp add: step.simps Let_def numeral_el_update)
qed

lemma step_change_clear:
  assumes "installed w" "\<not> js_truthy v"
  shows "step (Change v) w = clear_carpetas (w\<lparr>numeralField := Some \<lparr>num_value = v\<rparr>\<rparr>)"
proof -
  from assms(1) obtain n where n: "numeralField w = Some n" and b: "on_change w"
    by (auto simp: installed_def)
  have "\<not> js_truthy (numeral_val (w\<lparr>numeralField := Some (n\<lparr>num_value := v\<rparr>)\<rparr>))"
    using assms(2) by (simp add: numeral_val_def)
  from filtrarCarpetas_falsy [OF this] n b show ?thesis
    by (simp add: step.simps Let_def numeral_el_update)
qed

lemma change_fetch_fields:
  assumes "installed w" "v \<noteq> []"
  shows
    "carpetaField (step (Change (Some v)) w) =
       map_option (\<lambda>c. c\<lparr>disabled := False\<rparr>) (carpetaField w)"
    "pending (step (Change (Some v)) w) =
       pending w @ [\<lparr>url = ''/admin/get-carpetas-por-numeral/'', numeral_id = v,
                     app = app_tag (pathname w)\<rparr>]"
    "trace (step (Change (Some v)) w) =
       trace w @ [SetDisabled False,
                  Ajax \<lparr>url = ''/admin/get-carpetas-por-numeral/'', numeral_id = v,
                        app = app_tag (pathname w)\<rparr>]"
    "numeral_val (step (Change (Some v)) w) = Some v"
  unfolding step_change_fetch [OF assms]
  by (simp_all add: fetch_carpetas_fields numeral_val_def)

lemma change_clear_fields:
  assumes "installed w" "\<not> js_truthy v"
  shows
    "carpetaField (step (Change v) w) =
       map_option (\<lambda>c. c\<lparr>options := [placeholder], selectedIndex := Some 0, disabled := True\<rparr>)
         (carpetaField w)"
    "pending (step (Change v) w) = pending w"
    "trace (step (Change v) w) = trace w @ [SetHtml [placeholder], SetDisabled True]"
    "numeral_val (step (Change v) w) = v"
  unfolding step_change_clear [OF assms]
  by (simp_all add: clear_carpetas_fields numeral_val_def)

lemma success_fields:
  assumes "k < length (pending w)"
  shows
    "pending (step (Success k ks) w) = take k (pending w) @ drop (Suc k) (pending w)"
    "numeral_val (step (Success k ks) w) = numeral_val w"
    "carpeta_disabled (step (Success k ks) w) = carpeta_disabled w"
    "carpetaField w = Some c \<Longrightarrow>
       carpetaField (step (Success k ks) w) =
         Some (c\<lparr>options := placeholder # map option_of_carpeta ks,
                 selectedIndex :=
                   (case data_selected c of
                      None \<Rightarrow> Some 0
                    | Some v \<Rightarrow> if v \<noteq> [] then index_of v (placeholder # map option_of_carpeta ks)
                               else Some 0)\<rparr>)"
  using assms
  by (simp_all add: step.simps on_success_frame resolve_fields numeral_val_keeps
      carpeta_disabled_keeps carpeta_disabled_on_success on_success_carpeta)

lemma failure_fields:
  assumes "k < length (pending w)"
  shows
    "pending (step (Failure k) w) = take k (pending w) @ drop (Suc k) (pending w)"
    "carpetaField (step (Failure k) w) = carpetaField w"
    "trace (step (Failure k) w) = trace w @ [ConsoleError ''Error al cargar las carpetas'']"
  using assms by (simp_all add: step.simps on_error_fields resolve_fields)

lemma carpeta_options_success:
  assumes "k < length (pending w)" "carpetaField w \<noteq> None"
  shows "carpeta_options (step (Success k ks) w) = placeholder # map option_of_carpeta ks"
proof -
  from assms(2) obtain c where c: "carpetaField w = Some c" by auto
  show ?thesis by (simp add: carpeta_options_def success_fields(4) [OF assms(1) c])
qed

lemma example_ready:
  "installed (ready example_page)"
  "trace (ready example_page) = [BindChange, SetDisabled True]"
  "pending (ready example_page) = []"
  "app_tag (pathname (ready example_page)) = Some ''transparencia''"
  "carpeta_options (ready example_page) = options example_carpeta"
  "carpeta_val (ready example_page) = Some []"
  by (simp_all add: world_eval)

lemma bound_world_fields:
  "numeralField (bind_change (save_options (document_loaded (Some n) (Some c) p))) = Some n"
  "carpetaField (bind_change (save_options (document_loaded (Some n) (Some c) p))) = Some c"
  "pending (bind_change (save_options (document_loaded (Some n) (Some c) p))) = []"
  "trace (bind_change (save_options (document_loaded (Some n) (Some c) p))) = [BindChange]"
  "pathname (bind_change (save_options (document_loaded (Some n) (Some c) p))) = p"
  by (simp_all add: bind_change_def save_options_def document_loaded_def)

lemma ready_is_change:
  assumes "num_value n = Some v" "v \<noteq> []"
  shows "ready (document_loaded (Some n) (Some c) p) =
           step (Change (Some v)) (bind_change (save_options (document_loaded (Some n) (Some c) p)))"
proof -
  let ?w1 = "bind_change (save_options (document_loaded (Some n) (Some c) p))"
  have n: "n = \<lparr>num_value = Some v\<rparr>" using assms(1) by (cases n) simp
  have same: "?w1\<lparr>numeralField := Some \<lparr>num_value = Some v\<rparr>\<rparr> = ?w1"
    using n by (simp add: bind_change_def save_options_def document_loaded_def)
  have nv: "numeral_val ?w1 = Some v"
    by (simp add: numeral_val_def bound_world_fields assms(1))
  have "ready (document_loaded (Some n) (Some c) p) = filtrarCarpetas ?w1"
    using assms by (simp add: ready_present js_truthy_def)
  also have "\<dots> = fetch_carpetas v ?w1"
    by (rule filtrarCarpetas_truthy [OF nv assms(2)])
  also have "\<dots> = step (Change (Some v)) ?w1"
    by (simp only: step_change_fetch [OF installed_bound assms(2)] same)
  finally show ?thesis .
qed

lemma step_unbound:
  assumes "\<not> on_change w" "pending w = []"
  shows "carpetaField (step e w) = carpetaField w"
    "todasLasCarpetas (step e w) = todasLasCarpetas w"
    "carpetasOriginales (step e w) = carpetasOriginales w"
    "on_change (step e w) = on_change w"
    "pending (step e w) = pending w"
    "trace (step e w) = trace w"
  using assms by (cases e; simp add: step.simps Let_def split: option.splits)+

lemma run_unbound:
  "\<not> on_change w \<Longrightarrow> pending w = [] \<Longrightarrow>
   carpetaField (run evs w) = carpetaField w \<and>
   todasLasCarpetas (run evs w) = todasLasCarpetas w \<and>
   carpetasOriginales (run evs w) = carpetasOriginales w \<and>
   \<not> on_change (run evs w) \<and> pending (run evs w) = [] \<and> trace (run evs w) = trace w"
proof (induction evs arbitrary: w)
  case Nil
  then show ?case by (simp add: run_Nil)
next
  case (Cons e evs)
  have "\<not> on_change (step e w)" "pending (step e w) = []"
    using Cons.prems by (simp_all add: step_unbound)
  from Cons.IH [OF this] show ?case
    by (simp add: run_Cons step_unbound [OF Cons.prems])
qed

lemma split_on_no_sep: "d \<notin> set x \<Longrightarrow> split_on d x = [x]"
  by (induction x) auto

lemma split_on_sep: "d \<notin> set x \<Longrightarrow> split_on d (x @ d # r) = x # split_on d r"
  by (induction x) auto

lemma app_tag_third:
  assumes "CHR ''/'' \<notin> set a" "CHR ''/'' \<notin> set b" "CHR ''/'' \<notin> set c"
  shows "app_tag (a @ CHR ''/'' # b @ CHR ''/'' # c) = Some c"
    "app_tag (a @ CHR ''/'' # b @ CHR ''/'' # c @ CHR ''/'' # r) = Some c"
  using assms by (simp_all add: app_tag_def js_index_def split_on_sep split_on_no_sep)

lemma app_tag_short:
  assumes "CHR ''/'' \<notin> set a" "CHR ''/'' \<notin> set b"
  shows "app_tag a = None" "app_tag (a @ CHR ''/'' # b) = None"
  using assms by (simp_all add: app_tag_def js_index_def split_on_sep split_on_no_sep)

lemma deliver_failed:
  "k < length (pending w) \<Longrightarrow> deliver k Failed w = Returned (step (Failure k) w)"
  by (simp add: deliver_def)

lemma deliver_null_throws:
  "k < length (pending w) \<Longrightarrow>
   deliver k (Body None) w = Threw TypeError (set_html [placeholder] (resolve k w))"
  by (simp add: deliver_def)

lemma deliver_body_returns:
  "k < length (pending w) \<Longrightarrow>
   deliver k (Body (Some ks)) w = Returned (step (Success k ks) w)"
  by (simp add: deliver_def)

lemma failure_more:
  assumes "k < length (pending w)"
  shows "numeral_val (step (Failure k) w) = numeral_val w"
    "carpeta_disabled (step (Failure k) w) = carpeta_disabled w"
    "requests_in (trace (step (Failure k) w)) = requests_in (trace w)"
  using assms
  by (simp_all add: step.simps numeral_val_keeps carpeta_disabled_keeps on_error_fields
      resolve_fields requests_in_def)

lemma success_more:
  assumes "k < length (pending w)" "carpetaField w \<noteq> None"
  shows "carpeta_options (step (Success k ks) w) =
           placeholder # map (\<lambda>k. \<lparr>opt_value = carpeta_id k, opt_text = ruta_completa k,
                      opt_data_numeral = None\<rparr>) ks"
    "length (carpeta_options (step (Success k ks) w)) = length ks + 1"
proof -
  have o: "option_of_carpeta = (\<lambda>k. \<lparr>opt_value = carpeta_id k, opt_text = ruta_completa k,
                      opt_data_numeral = None\<rparr>)"
    by (rule ext) (simp add: option_of_carpeta_def)
  show "carpeta_options (step (Success k ks) w) =
           placeholder # map (\<lambda>k. \<lparr>opt_value = carpeta_id k, opt_text = ruta_completa k,
                      opt_data_numeral = None\<rparr>) ks"
    using carpeta_options_success [OF assms, of ks] by (simp only: o)
  then show "length (carpeta_options (step (Success k ks) w)) = length ks + 1"
    by simp
qed

lemma example_consistent: "consistent (ready example_page)"
  unfolding example_page_def by (rule ready_consistent)

section \<open>The claims\<close>

text \<open>
  Claim C1, as the script has it. The \<^verbatim>\<open>error\<close> callback only calls \<^verbatim>\<open>console.error\<close>, and
  nothing clears the options before a request is sent. So at every point of every sequence
  of events, the failure of any request in flight leaves the dependent control exactly as
  it was when the failure arrived (same options, same selection, same \<^verbatim>\<open>disabled\<close>
  property) and leaves the parent's value alone; one console report is made, no request is
  issued (no retry), the failed request and no other leaves those in flight, and the
  callback returns: no exception reaches the page. On a page where the control was disabled
  exactly when the parent was empty, it is so after the failure too: enabled exactly when
  the parent's current value is non-empty. In particular, when the failure directly follows
  the change to a non-empty value that issued the request, the control ends enabled with
  the options and selected value it had before that change.
\<close>

theorem fetch_failure_keeps_options:
  assumes "installed w" "v \<noteq> []"
  shows "(\<forall>k < length (pending (run evs w)).
            carpetaField (step (Failure k) (run evs w)) = carpetaField (run evs w) \<and>
            numeral_val (step (Failure k) (run evs w)) = numeral_val (run evs w) \<and>
            trace (step (Failure k) (run evs w)) =
              trace (run evs w) @ [ConsoleError ''Error al cargar las carpetas''] \<and>
            requests_in (trace (step (Failure k) (run evs w))) = requests_in (trace (run evs w)) \<and>
            pending (step (Failure k) (run evs w)) =
              take k (pending (run evs w)) @ drop (Suc k) (pending (run evs w)) \<and>
            deliver k Failed (run evs w) = Returned (step (Failure k) (run evs w)) \<and>
            (consistent w \<longrightarrow>
               carpeta_disabled (step (Failure k) (run evs w)) =
                 (\<not> js_truthy (numeral_val (step (Failure k) (run evs w)))))) \<and>
         \<not> carpeta_disabled (run [Change (Some v), Failure (length (pending w))] w) \<and>
         carpeta_options (run [Change (Some v), Failure (length (pending w))] w) =
           carpeta_options w \<and>
         carpeta_val (run [Change (Some v), Failure (length (pending w))] w) = carpeta_val w \<and>
         trace (run [Change (Some v), Failure (length (pending w))] w) =
           trace w @ [SetDisabled False,
                      Ajax \<lparr>url = ''/admin/get-carpetas-por-numeral/'', numeral_id = v,
                            app = app_tag (pathname w)\<rparr>,
                      ConsoleError ''Error al cargar las carpetas''] \<and>
         requests_in (trace (run [Change (Some v), Failure (length (pending w))] w)) =
           requests_in (trace w) @
             [\<lparr>url = ''/admin/get-carpetas-por-numeral/'', numeral_id = v,
               app = app_tag (pathname w)\<rparr>] \<and>
         pending (run [Change (Some v), Failure (length (pending w))] w) = pending w \<and>
         deliver (length (pending w)) Failed (step (Change (Some v)) w) =
           Returned (run [Change (Some v), Failure (length (pending w))] w)"
proof -
  let ?s = "run evs w"
  let ?w1 = "step (Change (Some v)) w"
  from assms(1) obtain c where c: "carpetaField w = Some c" by (auto simp: installed_def)
  have g: "\<forall>k < length (pending ?s).
            carpetaField (step (Failure k) ?s) = carpetaField ?s \<and>
            numeral_val (step (Failure k) ?s) = numeral_val ?s \<and>
            trace (step (Failure k) ?s) = trace ?s @ [ConsoleError ''Error al cargar las carpetas''] \<and>
            requests_in (trace (step (Failure k) ?s)) = requests_in (trace ?s) \<and>
            pending (step (Failure k) ?s) = take k (pending ?s) @ drop (Suc k) (pending ?s) \<and>
            deliver k Failed ?s = Returned (step (Failure k) ?s) \<and>
            (consistent w \<longrightarrow>
               carpeta_disabled (step (Failure k) ?s) =
                 (\<not> js_truthy (numeral_val (step (Failure k) ?s))))"
  proof (intro allI impI conjI)
    fix k assume k: "k < length (pending ?s)"
    show "carpetaField (step (Failure k) ?s) = carpetaField ?s"
      by (rule failure_fields(2) [OF k])
    show "numeral_val (step (Failure k) ?s) = numeral_val ?s"
      by (rule failure_more(1) [OF k])
    show "trace (step (Failure k) ?s) = trace ?s @ [ConsoleError ''Error al cargar las carpetas'']"
      by (rule failure_fields(3) [OF k])
    show "requests_in (trace (step (Failure k) ?s)) = requests_in (trace ?s)"
      by (rule failure_more(3) [OF k])
    show "pending (step (Failure k) ?s) = take k (pending ?s) @ drop (Suc k) (pending ?s)"
      by (rule failure_fields(1) [OF k])
    show "deliver k Failed ?s = Returned (step (Failure k) ?s)"
      by (rule deliver_failed [OF k])
    assume "consistent w"
    from run_consistent [OF assms(1) this] have "consistent ?s" .
    then show "carpeta_disabled (step (Failure k) ?s) =
                 (\<not> js_truthy (numeral_val (step (Failure k) ?s)))"
      by (simp add: consistent_def failure_more [OF k])
  qed
  have k: "length (pending w) < length (pending ?w1)"
    by (simp add: change_fetch_fields(2) [OF assms])
  have r: "run [Change (Some v), Failure (length (pending w))] w =
             step (Failure (length (pending w))) ?w1"
    by (simp add: run_Cons run_Nil)
  have i: "\<not> carpeta_disabled (step (Failure (length (pending w))) ?w1) \<and>
         carpeta_options (step (Failure (length (pending w))) ?w1) = carpeta_options w \<and>
         carpeta_val (step (Failure (length (pending w))) ?w1) = carpeta_val w \<and>
         trace (step (Failure (length (pending w))) ?w1) =
           trace w @ [SetDisabled False,
                      Ajax \<lparr>url = ''/admin/get-carpetas-por-numeral/'', numeral_id = v,
                            app = app_tag (pathname w)\<rparr>,
                      ConsoleError ''Error al cargar las carpetas''] \<and>
         requests_in (trace (step (Failure (length (pending w))) ?w1)) =
           requests_in (trace w) @
             [\<lparr>url = ''/admin/get-carpetas-por-numeral/'', numeral_id = v,
               app = app_tag (pathname w)\<rparr>] \<and>
         pending (step (Failure (length (pending w))) ?w1) = pending w"
    by (simp add: failure_fields [OF k] change_fetch_fields [OF assms] c carpeta_disabled_def
        carpeta_options_def carpeta_val_def select_val_def requests_in_def split: option.splits)
  have d: "deliver (length (pending w)) Failed ?w1 =
             Returned (step (Failure (length (pending w))) ?w1)"
    by (rule deliver_failed [OF k])
  show ?thesis unfolding r using g i d by blast
qed

text \<open>
  Two instances of C1 on the example page. The parent changes to \<open>5\<close>, then to the empty
  value, then the request fails: the control is disabled and holds the placeholder alone.
  The parent changes to \<open>5\<close> and the request fails at once: the control is enabled and
  holds the options the page was rendered with.
\<close>

theorem fetch_failure_keeps_options_witness:
  "installed (ready example_page) \<and> ''5'' \<noteq> [] \<and> consistent (ready example_page) \<and>
   (0::nat) < length (pending (run [Change (Some ''5''), Change (Some [])] (ready example_page))) \<and>
   carpeta_disabled
     (step (Failure 0) (run [Change (Some ''5''), Change (Some [])] (ready example_page))) \<and>
   carpeta_options
     (step (Failure 0) (run [Change (Some ''5''), Change (Some [])] (ready example_page))) =
     [placeholder] \<and>
   deliver 0 Failed (run [Change (Some ''5''), Change (Some [])] (ready example_page)) =
     Returned (step (Failure 0) (run [Change (Some ''5''), Change (Some [])] (ready example_page))) \<and>
   \<not> carpeta_disabled (run [Change (Some ''5''), Failure 0] (ready example_page)) \<and>
   carpeta_options (run [Change (Some ''5''), Failure 0] (ready example_page)) =
     options example_carpeta"
proof -
  let ?s = "run [Change (Some ''5''), Change (Some [])] (ready example_page)"
  have v: "''5'' \<noteq> []" by simp
  have k: "(0::nat) < length (pending ?s)" by (simp add: world_eval)
  have nv: "numeral_val ?s = Some []" by (simp add: world_eval)
  have os: "carpeta_options ?s = [placeholder]" by (simp add: world_eval)
  note g = fetch_failure_keeps_options [OF example_ready(1) v, of "[Change (Some ''5''), Change (Some [])]",
      THEN conjunct1, rule_format, OF k]
  note i = fetch_failure_keeps_options [OF example_ready(1) v, of "[Change (Some ''5''), Change (Some [])]",
      THEN conjunct2]
  have a: "carpetaField (step (Failure 0) ?s) = carpetaField ?s" using g by blast
  have b: "numeral_val (step (Failure 0) ?s) = numeral_val ?s" using g by blast
  have c: "carpeta_disabled (step (Failure 0) ?s) =
             (\<not> js_truthy (numeral_val (step (Failure 0) ?s)))"
    using g example_consistent by blast
  have d: "deliver 0 Failed ?s = Returned (step (Failure 0) ?s)" using g by blast
  have c': "carpeta_disabled (step (Failure 0) ?s)"
    by (simp only: c b nv) (simp add: js_truthy_def)
  have o': "carpeta_options (step (Failure 0) ?s) = [placeholder]"
    using os by (simp only: carpeta_options_def a)
  have e: "\<not> carpeta_disabled (run [Change (Some ''5''), Failure 0] (ready example_page)) \<and>
    carpeta_options (run [Change (Some ''5''), Failure 0] (ready example_page)) =
     options example_carpeta"
    using i by (simp add: example_ready)
  from example_ready(1) v example_consistent k c' o' d e show ?thesis by blast
qed

text \<open>
  Claim C1 as stated fails. On the example page the dependent control is rendered with the
  placeholder and one folder. The parent changes to \<open>5\<close> and the request fails: the control
  is enabled and still shows the folder it had.
\<close>

theorem fetch_failure_keeps_options_counterexample:
  "carpeta_options (run [Change (Some ''5''), Failure 0] (ready example_page)) =
     [placeholder,
      \<lparr>opt_value = ''7'', opt_text = ''Actas/2023'', opt_data_numeral = Some ''3''\<rparr>] \<and>
   \<not> (\<not> carpeta_disabled (run [Change (Some ''5''), Failure 0] (ready example_page)) \<and>
      carpeta_options (run [Change (Some ''5''), Failure 0] (ready example_page)) = [placeholder])"
  by (simp add: world_eval)

text \<open>
  Claim C2, as the script has it. The \<^verbatim>\<open>success\<close> callback does not look at the parent's
  value and no request is ever cancelled: at every point of every sequence of events, the
  success of any request in flight fills the dependent control with the placeholder followed
  by that response's records, and changes neither the \<^verbatim>\<open>disabled\<close> property nor the parent's
  value. In particular, when the parent changes to a non-empty value and then to the empty
  value before the first request resolves, the late response does fill the control: the
  final state is disabled, with the placeholder followed by the records of the response.
\<close>

theorem late_response_populates:
  assumes "installed w" "v \<noteq> []"
  shows "carpeta_disabled
           (run (evs @ [Change (Some v), Change (Some []),
                        Success (length (pending (run evs w))) ks]) w) \<and>
         carpeta_options
           (run (evs @ [Change (Some v), Change (Some []),
                        Success (length (pending (run evs w))) ks]) w) =
           placeholder # map option_of_carpeta ks \<and>
         (\<forall>k < length (pending (run evs w)).
            carpeta_options (step (Success k ks) (run evs w)) =
              placeholder # map option_of_carpeta ks \<and>
            carpeta_disabled (step (Success k ks) (run evs w)) = carpeta_disabled (run evs w) \<and>
            numeral_val (step (Success k ks) (run evs w)) = numeral_val (run evs w))"
proof -
  let ?w0 = "run evs w"
  let ?w1 = "step (Change (Some v)) ?w0"
  let ?w2 = "step (Change (Some [])) ?w1"
  have i0: "installed ?w0" by (rule run_installed [OF assms(1)])
  have i1: "installed ?w1" by (rule step_installed [OF i0])
  have e: "\<not> js_truthy (Some [])" by (simp add: js_truthy_def)
  from i0 obtain c where c: "carpetaField ?w0 = Some c" by (auto simp: installed_def)
  have c2: "carpetaField ?w2 =
      Some (c\<lparr>disabled := False, options := [placeholder], selectedIndex := Some 0,
              disabled := True\<rparr>)"
    by (simp add: change_clear_fields(1) [OF i1 e] change_fetch_fields(1) [OF i0 assms(2)] c)
  have k: "length (pending ?w0) < length (pending ?w2)"
    by (simp add: change_clear_fields(2) [OF i1 e] change_fetch_fields(2) [OF i0 assms(2)])
  have r: "run (evs @ [Change (Some v), Change (Some []), Success (length (pending ?w0)) ks]) w =
             step (Success (length (pending ?w0)) ks) ?w2"
    by (simp add: run_append run_Cons run_Nil)
  have d: "carpeta_disabled ?w2" by (simp add: carpeta_disabled_def c2)
  have o: "carpeta_options (step (Success (length (pending ?w0)) ks) ?w2) =
             placeholder # map option_of_carpeta ks"
    by (rule carpeta_options_success [OF k]) (simp add: c2)
  have g: "\<forall>k < length (pending ?w0).
            carpeta_options (step (Success k ks) ?w0) = placeholder # map option_of_carpeta ks \<and>
            carpeta_disabled (step (Success k ks) ?w0) = carpeta_disabled ?w0 \<and>
            numeral_val (step (Success k ks) ?w0) = numeral_val ?w0"
    by (simp add: success_fields carpeta_options_success c)
  show ?thesis
    using g by (simp only: r o success_fields(3) [OF k] d)
qed

text \<open>An instance of C2 after an earlier change, with two requests in flight.\<close>

theorem late_response_populates_witness:
  "installed (ready example_page) \<and> ''5'' \<noteq> [] \<and>
   carpeta_disabled
     (run ([Change (Some ''9'')] @ [Change (Some ''5''), Change (Some []), Success 1 example_data])
        (ready example_page)) \<and>
   carpeta_options
     (run ([Change (Some ''9'')] @ [Change (Some ''5''), Change (Some []), Success 1 example_data])
        (ready example_page)) = placeholder # map option_of_carpeta example_data \<and>
   (0::nat) < length (pending (run [Change (Some ''9'')] (ready example_page))) \<and>
   carpeta_options (step (Success 0 example_data) (run [Change (Some ''9'')] (ready example_page))) =
     placeholder # map option_of_carpeta example_data"
proof -
  have v: "''5'' \<noteq> []" by simp
  have p: "length (pending (run [Change (Some ''9'')] (ready example_page))) = 1"
    by (simp add: world_eval)
  from late_response_populates [OF example_ready(1) v, of "[Change (Some ''9'')]" example_data]
  show ?thesis by (simp add: example_ready(1) p)
qed

text \<open>
  Claim C2 as stated fails. The parent changes from \<open>5\<close> to the empty value before the
  request for \<open>5\<close> resolves, then the response arrives with two records: the dependent
  control ends disabled and holds the placeholder and both records.
\<close>

theorem late_response_populates_counterexample:
  "carpeta_disabled
     (run [Change (Some ''5''), Change (Some []), Success 0 example_data] (ready example_page)) \<and>
   carpeta_options
     (run [Change (Some ''5''), Change (Some []), Success 0 example_data] (ready example_page)) =
     [placeholder,
      \<lparr>opt_value = ''12'', opt_text = ''Numeral 5/Contratos'', opt_data_numeral = None\<rparr>,
      \<lparr>opt_value = ''15'', opt_text = ''Numeral 5/Contratos/2024'', opt_data_numeral = None\<rparr>] \<and>
   \<not> (carpeta_disabled
        (run [Change (Some ''5''), Change (Some []), Success 0 example_data] (ready example_page)) \<and>
      carpeta_options
        (run [Change (Some ''5''), Change (Some []), Success 0 example_data] (ready example_page)) =
        [placeholder])"
  by (simp add: world_eval)

text \<open>
  Claim C3. At every point of every sequence of events, when any request in flight succeeds
  with \<open>N\<close> records, the dependent control has exactly \<open>N + 1\<close> options afterwards: the
  placeholder, then one option per record with the record's id as value and its
  \<^verbatim>\<open>ruta_completa\<close> as text, in the order of the payload. On a page where the control was
  disabled exactly when the parent was empty, the control is enabled afterwards whenever
  the parent's value is non-empty when the response arrives. In particular this holds when
  the parent changes to a non-empty value and the request this issues succeeds next.
\<close>

theorem success_populates_in_server_order:
  assumes "installed w"
  shows "(\<forall>k < length (pending (run evs w)).
            carpeta_options (step (Success k ks) (run evs w)) =
              placeholder #
              map (\<lambda>k. \<lparr>opt_value = carpeta_id k, opt_text = ruta_completa k,
                         opt_data_numeral = None\<rparr>) ks \<and>
            length (carpeta_options (step (Success k ks) (run evs w))) = length ks + 1 \<and>
            (consistent w \<and> js_truthy (numeral_val (run evs w)) \<longrightarrow>
               \<not> carpeta_disabled (step (Success k ks) (run evs w)))) \<and>
         (v \<noteq> [] \<longrightarrow>
            \<not> carpeta_disabled (run [Change (Some v), Success (length (pending w)) ks] w) \<and>
            carpeta_options (run [Change (Some v), Success (length (pending w)) ks] w) =
              placeholder #
              map (\<lambda>k. \<lparr>opt_value = carpeta_id k, opt_text = ruta_completa k,
                         opt_data_numeral = None\<rparr>) ks \<and>
            length (carpeta_options (run [Change (Some v), Success (length (pending w)) ks] w)) =
              length ks + 1)"
proof (intro conjI allI impI)
  let ?s = "run evs w"
  have inst: "installed ?s" by (rule run_installed [OF assms])
  then have cs: "carpetaField ?s \<noteq> None" by (simp add: installed_def)
  {
    fix k assume k: "k < length (pending ?s)"
    show "carpeta_options (step (Success k ks) ?s) =
              placeholder #
              map (\<lambda>k. \<lparr>opt_value = carpeta_id k, opt_text = ruta_completa k,
                         opt_data_numeral = None\<rparr>) ks"
      by (rule success_more(1) [OF k cs])
    show "length (carpeta_options (step (Success k ks) ?s)) = length ks + 1"
      by (rule success_more(2) [OF k cs])
    assume a: "consistent w \<and> js_truthy (numeral_val ?s)"
    then have "consistent ?s" using run_consistent [OF assms] by simp
    with a have "\<not> carpeta_disabled ?s" by (simp add: consistent_def)
    then show "\<not> carpeta_disabled (step (Success k ks) ?s)"
      by (simp add: success_fields(3) [OF k])
  }
  {
    assume v: "v \<noteq> []"
    let ?w1 = "step (Change (Some v)) w"
    from assms obtain c where c: "carpetaField w = Some c" by (auto simp: installed_def)
    have k: "length (pending w) < length (pending ?w1)"
      by (simp add: change_fetch_fields(2) [OF assms v])
    have c1: "carpetaField ?w1 = Some (c\<lparr>disabled := False\<rparr>)"
      by (simp add: change_fetch_fields(1) [OF assms v] c)
    then have c1': "carpetaField ?w1 \<noteq> None" by simp
    have r: "run [Change (Some v), Success (length (pending w)) ks] w =
               step (Success (length (pending w)) ks) ?w1"
      by (simp add: run_Cons run_Nil)
    have d: "\<not> carpeta_disabled ?w1" by (simp add: carpeta_disabled_def c1)
    show "\<not> carpeta_disabled (run [Change (Some v), Success (length (pending w)) ks] w)"
      using d by (simp add: r success_fields(3) [OF k])
    show "carpeta_options (run [Change (Some v), Success (length (pending w)) ks] w) =
              placeholder #
              map (\<lambda>k. \<lparr>opt_value = carpeta_id k, opt_text = ruta_completa k,
                         opt_data_numeral = None\<rparr>) ks"
      unfolding r by (rule success_more(1) [OF k c1'])
    show "length (carpeta_options (run [Change (Some v), Success (length (pending w)) ks] w)) =
              length ks + 1"
      unfolding r by (rule success_more(2) [OF k c1'])
  }
qed

text \<open>
  Two instances of C3 on the example page: the request for \<open>9\<close> succeeds after the parent
  has moved on to \<open>5\<close>, and the request for \<open>5\<close> succeeds right after the change.
\<close>

theorem success_populates_in_server_order_witness:
  "installed (ready example_page) \<and>
   (0::nat) < length (pending (run [Change (Some ''9''), Change (Some ''5'')] (ready example_page))) \<and>
   consistent (ready example_page) \<and>
   js_truthy (numeral_val (run [Change (Some ''9''), Change (Some ''5'')] (ready example_page))) \<and>
   \<not> carpeta_disabled (step (Success 0 example_data)
        (run [Change (Some ''9''), Change (Some ''5'')] (ready example_page))) \<and>
   carpeta_options (step (Success 0 example_data)
        (run [Change (Some ''9''), Change (Some ''5'')] (ready example_page))) =
     [placeholder,
      \<lparr>opt_value = ''12'', opt_text = ''Numeral 5/Contratos'', opt_data_numeral = None\<rparr>,
      \<lparr>opt_value = ''15'', opt_text = ''Numeral 5/Contratos/2024'', opt_data_numeral = None\<rparr>] \<and>
   ''5'' \<noteq> [] \<and>
   \<not> carpeta_disabled (run [Change (Some ''5''), Success 0 example_data] (ready example_page)) \<and>
   carpeta_options (run [Change (Some ''5''), Success 0 example_data] (ready example_page)) =
     [placeholder,
      \<lparr>opt_value = ''12'', opt_text = ''Numeral 5/Contratos'', opt_data_numeral = None\<rparr>,
      \<lparr>opt_value = ''15'', opt_text = ''Numeral 5/Contratos/2024'', opt_data_numeral = None\<rparr>]"
proof -
  let ?s = "run [Change (Some ''9''), Change (Some ''5'')] (ready example_page)"
  have v: "''5'' \<noteq> []" by simp
  have k: "(0::nat) < length (pending ?s)" by (simp add: world_eval)
  have t: "js_truthy (numeral_val ?s)" by (simp add: world_eval)
  note g = success_populates_in_server_order [OF example_ready(1), of "[Change (Some ''9''), Change (Some ''5'')]"
      example_data, THEN conjunct1, rule_format, OF k]
  note i = success_populates_in_server_order [OF example_ready(1), of _ example_data "''5''", THEN conjunct2, rule_format, OF v]
  have a: "\<not> carpeta_disabled (step (Success 0 example_data) ?s)"
    using g example_consistent t by blast
  have b: "carpeta_options (step (Success 0 example_data) ?s) =
     [placeholder,
      \<lparr>opt_value = ''12'', opt_text = ''Numeral 5/Contratos'', opt_data_numeral = None\<rparr>,
      \<lparr>opt_value = ''15'', opt_text = ''Numeral 5/Contratos/2024'', opt_data_numeral = None\<rparr>]"
    using g by (simp add: example_data_def)
  have e: "\<not> carpeta_disabled (run [Change (Some ''5''), Success 0 example_data] (ready example_page)) \<and>
   carpeta_options (run [Change (Some ''5''), Success 0 example_data] (ready example_page)) =
     [placeholder,
      \<lparr>opt_value = ''12'', opt_text = ''Numeral 5/Contratos'', opt_data_numeral = None\<rparr>,
      \<lparr>opt_value = ''15'', opt_text = ''Numeral 5/Contratos/2024'', opt_data_numeral = None\<rparr>]"
    using i by (simp add: example_ready example_data_def)
  from example_ready(1) k example_consistent t a b v e show ?thesis by blast
qed

text \<open>
  Claim C4. When the parent control changes to an empty value (\<^verbatim>\<open>null\<close> or the empty string),
  the dependent control's options become the placeholder alone, the control is disabled, and
  no request is issued: the requests in flight and the requests among the effects are those
  from before.
\<close>

theorem change_to_empty_clears_and_disables:
  assumes "installed w" "\<not> js_truthy v"
  shows "carpeta_options (step (Change v) w) = [placeholder] \<and>
         carpeta_disabled (step (Change v) w) \<and>
         pending (step (Change v) w) = pending w \<and>
         trace (step (Change v) w) = trace w @ [SetHtml [placeholder], SetDisabled True] \<and>
         requests_in (trace (step (Change v) w)) = requests_in (trace w)"
proof -
  from assms(1) obtain c where c: "carpetaField w = Some c" by (auto simp: installed_def)
  show ?thesis
    by (simp add: change_clear_fields [OF assms] carpeta_disabled_def carpeta_options_def c
        requests_in_def)
qed

text \<open>An instance of C4 on the example page.\<close>

theorem change_to_empty_clears_and_disables_witness:
  "installed (ready example_page) \<and> \<not> js_truthy (Some []) \<and>
   carpeta_options (step (Change (Some [])) (ready example_page)) = [placeholder] \<and>
   carpeta_disabled (step (Change (Some [])) (ready example_page)) \<and>
   pending (step (Change (Some [])) (ready example_page)) = [] \<and>
   requests_in (trace (step (Change (Some [])) (ready example_page))) = []"
proof -
  have v: "\<not> js_truthy (Some [])" by (simp add: js_truthy_def)
  from change_to_empty_clears_and_disables [OF example_ready(1) v] show ?thesis
    by (simp add: example_ready v requests_in_def)
qed

text \<open>
  Claim C5. When the parent control changes to a non-empty value, the script first enables
  the dependent control and then issues exactly one request: the effects grow by
  \<open>SetDisabled False\<close> followed by one \<open>Ajax\<close> call to
  \<^verbatim>\<open>/admin/get-carpetas-por-numeral/\<close> whose parameters are the parent's value and the tag
  taken from the page's path; that request is the only one added to those in flight, and
  the options are not touched. The tag is the third piece of the path split at \<^verbatim>\<open>/\<close>: for a
  path \<open>a/b/c\<close> or \<open>a/b/c/r\<close>, where \<open>a\<close>, \<open>b\<close> and \<open>c\<close> have no \<^verbatim>\<open>/\<close>, the request carries
  \<open>c\<close>; for a path with fewer than three pieces (\<open>a\<close> or \<open>a/b\<close>) the third piece is
  \<^verbatim>\<open>undefined\<close> and the request carries no tag value.
\<close>

theorem change_to_value_enables_then_fetches:
  assumes "installed w" "v \<noteq> []"
  shows "trace (step (Change (Some v)) w) =
           trace w @ [SetDisabled False,
                      Ajax \<lparr>url = ''/admin/get-carpetas-por-numeral/'', numeral_id = v,
                            app = app_tag (pathname w)\<rparr>] \<and>
         pending (step (Change (Some v)) w) =
           pending w @ [\<lparr>url = ''/admin/get-carpetas-por-numeral/'', numeral_id = v,
                         app = app_tag (pathname w)\<rparr>] \<and>
         requests_in (trace (step (Change (Some v)) w)) =
           requests_in (trace w) @
             [\<lparr>url = ''/admin/get-carpetas-por-numeral/'', numeral_id = v,
               app = app_tag (pathname w)\<rparr>] \<and>
         \<not> carpeta_disabled (step (Change (Some v)) w) \<and>
         carpeta_options (step (Change (Some v)) w) = carpeta_options w \<and>
         (CHR ''/'' \<notin> set a \<and> CHR ''/'' \<notin> set b \<and> CHR ''/'' \<notin> set c \<and>
          (pathname w = a @ CHR ''/'' # b @ CHR ''/'' # c \<or>
           pathname w = a @ CHR ''/'' # b @ CHR ''/'' # c @ CHR ''/'' # r) \<longrightarrow>
            app_tag (pathname w) = Some c \<and>
            last (pending (step (Change (Some v)) w)) =
              \<lparr>url = ''/admin/get-carpetas-por-numeral/'', numeral_id = v, app = Some c\<rparr>) \<and>
         (CHR ''/'' \<notin> set a \<and> CHR ''/'' \<notin> set b \<and>
          (pathname w = a \<or> pathname w = a @ CHR ''/'' # b) \<longrightarrow>
            app_tag (pathname w) = None \<and>
            last (pending (step (Change (Some v)) w)) =
              \<lparr>url = ''/admin/get-carpetas-por-numeral/'', numeral_id = v, app = None\<rparr>)"
proof -
  from assms(1) obtain c' where c: "carpetaField w = Some c'" by (auto simp: installed_def)
  have e: "trace (step (Change (Some v)) w) =
           trace w @ [SetDisabled False,
                      Ajax \<lparr>url = ''/admin/get-carpetas-por-numeral/'', numeral_id = v,
                            app = app_tag (pathname w)\<rparr>] \<and>
         pending (step (Change (Some v)) w) =
           pending w @ [\<lparr>url = ''/admin/get-carpetas-por-numeral/'', numeral_id = v,
                         app = app_tag (pathname w)\<rparr>] \<and>
         requests_in (trace (step (Change (Some v)) w)) =
           requests_in (trace w) @
             [\<lparr>url = ''/admin/get-carpetas-por-numeral/'', numeral_id = v,
               app = app_tag (pathname w)\<rparr>] \<and>
         \<not> carpeta_disabled (step (Change (Some v)) w) \<and>
         carpeta_options (step (Change (Some v)) w) = carpeta_options w"
    by (simp add: change_fetch_fields [OF assms] carpeta_disabled_def carpeta_options_def c
        requests_in_def)
  have l: "last (pending (step (Change (Some v)) w)) =
      \<lparr>url = ''/admin/get-carpetas-por-numeral/'', numeral_id = v, app = app_tag (pathname w)\<rparr>"
    by (simp add: change_fetch_fields(2) [OF assms])
  have t: "CHR ''/'' \<notin> set a \<and> CHR ''/'' \<notin> set b \<and> CHR ''/'' \<notin> set c \<and>
          (pathname w = a @ CHR ''/'' # b @ CHR ''/'' # c \<or>
           pathname w = a @ CHR ''/'' # b @ CHR ''/'' # c @ CHR ''/'' # r) \<longrightarrow>
            app_tag (pathname w) = Some c \<and>
            last (pending (step (Change (Some v)) w)) =
              \<lparr>url = ''/admin/get-carpetas-por-numeral/'', numeral_id = v, app = Some c\<rparr>"
  proof
    assume h: "CHR ''/'' \<notin> set a \<and> CHR ''/'' \<notin> set b \<and> CHR ''/'' \<notin> set c \<and>
          (pathname w = a @ CHR ''/'' # b @ CHR ''/'' # c \<or>
           pathname w = a @ CHR ''/'' # b @ CHR ''/'' # c @ CHR ''/'' # r)"
    then have "app_tag (pathname w) = Some c"
      using app_tag_third(1) [of a b c] app_tag_third(2) [of a b c r] by auto
    with l show "app_tag (pathname w) = Some c \<and>
            last (pending (step (Change (Some v)) w)) =
              \<lparr>url = ''/admin/get-carpetas-por-numeral/'', numeral_id = v, app = Some c\<rparr>"
      by simp
  qed
  have n: "CHR ''/'' \<notin> set a \<and> CHR ''/'' \<notin> set b \<and>
          (pathname w = a \<or> pathname w = a @ CHR ''/'' # b) \<longrightarrow>
            app_tag (pathname w) = None \<and>
            last (pending (step (Change (Some v)) w)) =
              \<lparr>url = ''/admin/get-carpetas-por-numeral/'', numeral_id = v, app = None\<rparr>"
  proof
    assume h: "CHR ''/'' \<notin> set a \<and> CHR ''/'' \<notin> set b \<and>
          (pathname w = a \<or> pathname w = a @ CHR ''/'' # b)"
    then have "app_tag (pathname w) = None"
      using app_tag_short(1) [of a b] app_tag_short(2) [of a b] by auto
    with l show "app_tag (pathname w) = None \<and>
            last (pending (step (Change (Some v)) w)) =
              \<lparr>url = ''/admin/get-carpetas-por-numeral/'', numeral_id = v, app = None\<rparr>"
      by simp
  qed
  from e t n show ?thesis by blast
qed

text \<open>
  Two instances of C5: on the example page, whose path is
  \<^verbatim>\<open>/admin/transparencia/documento/add/\<close>, the tag is \<open>transparencia\<close>; on a page whose path
  is \<^verbatim>\<open>/admin\<close> there is none.
\<close>

theorem change_to_value_enables_then_fetches_witness:
  "installed (ready example_page) \<and> ''5'' \<noteq> [] \<and>
   trace (step (Change (Some ''5'')) (ready example_page)) =
     [BindChange, SetDisabled True, SetDisabled False,
      Ajax \<lparr>url = ''/admin/get-carpetas-por-numeral/'', numeral_id = ''5'',
            app = Some ''transparencia''\<rparr>] \<and>
   pending (step (Change (Some ''5'')) (ready example_page)) =
     [\<lparr>url = ''/admin/get-carpetas-por-numeral/'', numeral_id = ''5'',
       app = Some ''transparencia''\<rparr>] \<and>
   \<not> carpeta_disabled (step (Change (Some ''5'')) (ready example_page)) \<and>
   (CHR ''/'' \<notin> set [] \<and> CHR ''/'' \<notin> set ''admin'' \<and> CHR ''/'' \<notin> set ''transparencia'' \<and>
    pathname (ready example_page) =
      [] @ CHR ''/'' # ''admin'' @ CHR ''/'' # ''transparencia'' @ CHR ''/'' # ''documento/add/'') \<and>
   last (pending (step (Change (Some ''5'')) (ready example_page))) =
     \<lparr>url = ''/admin/get-carpetas-por-numeral/'', numeral_id = ''5'',
       app = Some ''transparencia''\<rparr> \<and>
   installed (ready (document_loaded (Some \<lparr>num_value = None\<rparr>) (Some example_carpeta) ''/admin'')) \<and>
   (CHR ''/'' \<notin> set [] \<and> CHR ''/'' \<notin> set ''admin'' \<and>
    pathname (ready (document_loaded (Some \<lparr>num_value = None\<rparr>) (Some example_carpeta) ''/admin'')) =
      [] @ CHR ''/'' # ''admin'') \<and>
   last (pending (step (Change (Some ''5''))
      (ready (document_loaded (Some \<lparr>num_value = None\<rparr>) (Some example_carpeta) ''/admin'')))) =
     \<lparr>url = ''/admin/get-carpetas-por-numeral/'', numeral_id = ''5'', app = None\<rparr>"
proof -
  let ?w2 = "ready (document_loaded (Some \<lparr>num_value = None\<rparr>) (Some example_carpeta) ''/admin'')"
  have v: "''5'' \<noteq> []" by simp
  have i2: "installed ?w2" by (rule ready_installed)
  have h1: "CHR ''/'' \<notin> set [] \<and> CHR ''/'' \<notin> set ''admin'' \<and> CHR ''/'' \<notin> set ''transparencia'' \<and>
    (pathname (ready example_page) =
      [] @ CHR ''/'' # ''admin'' @ CHR ''/'' # ''transparencia'' \<or>
     pathname (ready example_page) =
      [] @ CHR ''/'' # ''admin'' @ CHR ''/'' # ''transparencia'' @ CHR ''/'' # ''documento/add/'')"
    by (simp add: world_eval)
  have h2: "CHR ''/'' \<notin> set [] \<and> CHR ''/'' \<notin> set ''admin'' \<and>
    (pathname ?w2 = [] \<or> pathname ?w2 = [] @ CHR ''/'' # ''admin'')"
    by (simp add: world_eval)
  note x = change_to_value_enables_then_fetches [OF example_ready(1) v, of "[]" "''admin''" "''transparencia''" "''documento/add/''"]
  note y = change_to_value_enables_then_fetches [OF i2 v, of "[]" "''admin''" "''transparencia''" "''documento/add/''"]
  have l1: "last (pending (step (Change (Some ''5'')) (ready example_page))) =
     \<lparr>url = ''/admin/get-carpetas-por-numeral/'', numeral_id = ''5'',
       app = Some ''transparencia''\<rparr>"
    using x h1 by blast
  have l2: "last (pending (step (Change (Some ''5'')) ?w2)) =
     \<lparr>url = ''/admin/get-carpetas-por-numeral/'', numeral_id = ''5'', app = None\<rparr>"
    using y h2 by blast
  have e: "trace (step (Change (Some ''5'')) (ready example_page)) =
     [BindChange, SetDisabled True, SetDisabled False,
      Ajax \<lparr>url = ''/admin/get-carpetas-por-numeral/'', numeral_id = ''5'',
            app = Some ''transparencia''\<rparr>] \<and>
   pending (step (Change (Some ''5'')) (ready example_page)) =
     [\<lparr>url = ''/admin/get-carpetas-por-numeral/'', numeral_id = ''5'',
       app = Some ''transparencia''\<rparr>] \<and>
   \<not> carpeta_disabled (step (Change (Some ''5'')) (ready example_page))"
    using x by (simp add: example_ready)
  have p1: "pathname (ready example_page) =
      [] @ CHR ''/'' # ''admin'' @ CHR ''/'' # ''transparencia'' @ CHR ''/'' # ''documento/add/''"
    by (simp add: world_eval)
  have p2: "pathname ?w2 = [] @ CHR ''/'' # ''admin''" by (simp add: world_eval)
  from example_ready(1) v e h1 p1 l1 i2 h2 p2 l2 show ?thesis by blast
qed

text \<open>
  Claim C6. The dependent control carries a \<^verbatim>\<open>data-selected\<close> attribute with value \<open>V\<close> and
  a request succeeds with a payload that has a record whose id is \<open>V\<close>. After the callback,
  \<^verbatim>\<open>carpetaField.val()\<close> is \<open>V\<close>.
\<close>

theorem recorded_selection_restored:
  assumes "carpetaField w = Some c" "data_selected c = Some V" "V \<in> carpeta_id ` set ks"
    "k < length (pending w)"
  shows "carpeta_val (step (Success k ks) w) = Some V"
proof (cases "V = []")
  case True
  then show ?thesis
    by (simp add: carpeta_val_def success_fields(4) [OF assms(4) assms(1)] assms(2)
        select_val_def js_index_def placeholder_def)
next
  case False
  let ?os = "placeholder # map option_of_carpeta ks"
  from assms(3) have "V \<in> opt_value ` set ?os"
    by (auto simp: option_of_carpeta_def image_iff)
  from index_of_mem [OF this] obtain i where i: "index_of V ?os = Some i" by blast
  from index_of_Some [OF i] have "i < length ?os" "opt_value (?os ! i) = V" by simp_all
  then have "map_option opt_value (js_index ?os i) = Some V"
    by (simp add: js_index_def)
  with False i show ?thesis
    by (simp add: carpeta_val_def success_fields(4) [OF assms(4) assms(1)] assms(2)
        select_val_def)
qed

text \<open>
  An instance of C6: the dependent control records the value \<open>15\<close>, the parent changes to
  \<open>5\<close> and the response holds the folders 12 and 15.
\<close>

theorem recorded_selection_restored_witness:
  "carpetaField (step (Change (Some ''5''))
      (ready (document_loaded (Some \<lparr>num_value = Some []\<rparr>)
                (Some (example_carpeta\<lparr>data_selected := Some ''15''\<rparr>)) ''/admin/comude/x/''))) =
     Some (example_carpeta\<lparr>data_selected := Some ''15''\<rparr>) \<and>
   data_selected (example_carpeta\<lparr>data_selected := Some ''15''\<rparr>) = Some ''15'' \<and>
   ''15'' \<in> carpeta_id ` set example_data \<and>
   carpeta_val (step (Success 0 example_data) (step (Change (Some ''5''))
      (ready (document_loaded (Some \<lparr>num_value = Some []\<rparr>)
                (Some (example_carpeta\<lparr>data_selected := Some ''15''\<rparr>)) ''/admin/comude/x/'')))) =
     Some ''15''"
proof -
  let ?w = "step (Change (Some ''5''))
      (ready (document_loaded (Some \<lparr>num_value = Some []\<rparr>)
                (Some (example_carpeta\<lparr>data_selected := Some ''15''\<rparr>)) ''/admin/comude/x/''))"
  have a: "carpetaField ?w = Some (example_carpeta\<lparr>data_selected := Some ''15''\<rparr>)"
    by (simp add: world_eval)
  have b: "data_selected (example_carpeta\<lparr>data_selected := Some ''15''\<rparr>) = Some ''15''"
    by simp
  have m: "''15'' \<in> carpeta_id ` set example_data" by (simp add: example_data_def)
  have k: "0 < length (pending ?w)" by (simp add: world_eval)
  from recorded_selection_restored [OF a b m k] a m show ?thesis by simp
qed

text \<open>
  Claim C7. On page load with both controls present: when the parent already has a
  non-empty value \<open>v\<close>, the callback does exactly what a change of the parent to \<open>v\<close> does
  once the handler is bound (enable, then one request for \<open>v\<close>), and the success of that
  request fills the enabled control; when the parent's value is empty, the dependent control
  is disabled, keeps its options, and no request is issued.
\<close>

theorem page_load_initialisation:
  "(num_value n = Some v \<and> v \<noteq> [] \<longrightarrow>
      ready (document_loaded (Some n) (Some c) p) =
        step (Change (Some v)) (bind_change (save_options (document_loaded (Some n) (Some c) p))) \<and>
      trace (ready (document_loaded (Some n) (Some c) p)) =
        [BindChange, SetDisabled False,
         Ajax \<lparr>url = ''/admin/get-carpetas-por-numeral/'', numeral_id = v, app = app_tag p\<rparr>] \<and>
      \<not> carpeta_disabled (run [Success 0 ks] (ready (document_loaded (Some n) (Some c) p))) \<and>
      carpeta_options (run [Success 0 ks] (ready (document_loaded (Some n) (Some c) p))) =
        placeholder # map option_of_carpeta ks) \<and>
   (\<not> js_truthy (num_value n) \<longrightarrow>
      carpeta_disabled (ready (document_loaded (Some n) (Some c) p)) \<and>
      carpeta_options (ready (document_loaded (Some n) (Some c) p)) = options c \<and>
      pending (ready (document_loaded (Some n) (Some c) p)) = [] \<and>
      trace (ready (document_loaded (Some n) (Some c) p)) = [BindChange, SetDisabled True])"
proof (intro conjI impI)
  let ?w0 = "document_loaded (Some n) (Some c) p"
  let ?w1 = "bind_change (save_options ?w0)"
  {
    assume a: "num_value n = Some v \<and> v \<noteq> []"
    then have v: "v \<noteq> []" and nv: "num_value n = Some v" by simp_all
    show r: "ready ?w0 = step (Change (Some v)) ?w1"
      by (rule ready_is_change [OF nv v])
    show "trace (ready ?w0) =
        [BindChange, SetDisabled False,
         Ajax \<lparr>url = ''/admin/get-carpetas-por-numeral/'', numeral_id = v, app = app_tag p\<rparr>]"
      by (simp add: r change_fetch_fields(3) [OF installed_bound v] bound_world_fields)
    have k: "0 < length (pending (ready ?w0))"
      by (simp add: r change_fetch_fields(2) [OF installed_bound v])
    have cf: "carpetaField (ready ?w0) = Some (c\<lparr>disabled := False\<rparr>)"
      by (simp add: r change_fetch_fields(1) [OF installed_bound v] bound_world_fields)
    have "\<not> carpeta_disabled (ready ?w0)"
      by (simp add: carpeta_disabled_def cf)
    then show "\<not> carpeta_disabled (run [Success 0 ks] (ready ?w0))"
      by (simp add: run_Cons run_Nil success_fields(3) [OF k])
    have "carpetaField (ready ?w0) \<noteq> None" by (simp add: cf)
    from carpeta_options_success [OF k this]
    show "carpeta_options (run [Success 0 ks] (ready ?w0)) = placeholder # map option_of_carpeta ks"
      by (simp only: run_Cons run_Nil)
  }
  {
    assume f: "\<not> js_truthy (num_value n)"
    then have r: "ready ?w0 = prop_disabled True ?w1" by (simp add: ready_present)
    show "carpeta_disabled (ready ?w0)"
      by (simp add: r carpeta_disabled_def prop_disabled_fields bound_world_fields)
    show "carpeta_options (ready ?w0) = options c"
      by (simp add: r carpeta_options_def prop_disabled_fields bound_world_fields)
    show "pending (ready ?w0) = []"
      by (simp add: r prop_disabled_fields bound_world_fields)
    show "trace (ready ?w0) = [BindChange, SetDisabled True]"
      by (simp add: r prop_disabled_fields bound_world_fields)
  }
qed

text \<open>
  Two instances of C7: a change form whose parent holds \<open>5\<close>, and the example page, whose
  parent is empty.
\<close>

theorem page_load_initialisation_witness:
  "(num_value \<lparr>num_value = Some ''5''\<rparr> = Some ''5'' \<and> ''5'' \<noteq> []) \<and>
   trace (ready (document_loaded (Some \<lparr>num_value = Some ''5''\<rparr>) (Some example_carpeta)
            ''/admin/comude/documento/3/change/'')) =
     [BindChange, SetDisabled False,
      Ajax \<lparr>url = ''/admin/get-carpetas-por-numeral/'', numeral_id = ''5'',
            app = Some ''comude''\<rparr>] \<and>
   carpeta_options (run [Success 0 example_data]
      (ready (document_loaded (Some \<lparr>num_value = Some ''5''\<rparr>) (Some example_carpeta)
            ''/admin/comude/documento/3/change/''))) =
     placeholder # map option_of_carpeta example_data \<and>
   \<not> js_truthy (num_value \<lparr>num_value = Some []\<rparr>) \<and>
   carpeta_disabled (ready example_page) \<and>
   pending (ready example_page) = []"
proof -
  have a: "num_value \<lparr>num_value = Some ''5''\<rparr> = Some ''5'' \<and> ''5'' \<noteq> []" by simp
  have b: "\<not> js_truthy (num_value \<lparr>num_value = Some []\<rparr>)" by (simp add: js_truthy_def)
  have t: "app_tag ''/admin/comude/documento/3/change/'' = Some ''comude''"
    by (simp add: app_tag_def js_index_def)
  note x = page_load_initialisation [of "\<lparr>num_value = Some ''5''\<rparr>" "''5''" example_carpeta
        "''/admin/comude/documento/3/change/''" example_data, THEN conjunct1, rule_format, OF a,
        THEN conjunct2]
  note y = page_load_initialisation [of "\<lparr>num_value = Some []\<rparr>" "''5''" example_carpeta
        "''/admin/transparencia/documento/add/''" example_data, THEN conjunct2, rule_format, OF b]
  from x y show ?thesis using a b t by (simp add: example_page_def)
qed

text \<open>
  Claim C8. After the page-load callback on a page with both controls, and after every
  further event (each change of the parent, each response), the dependent control is
  disabled if and only if the parent's value is empty.
\<close>

theorem disabled_iff_parent_empty: 
  "carpeta_disabled (run evs (ready (document_loaded (Some n) (Some c) p))) =
    (\<not> js_truthy (numeral_val (run evs (ready (document_loaded (Some n) (Some c) p)))))"
  using run_consistent [OF ready_installed ready_consistent] by (simp add: consistent_def)

text \<open>
  Two instances of C8 on the example page: after a change to \<open>5\<close> and its response, and
  after a further change to no value.
\<close>

theorem disabled_iff_parent_empty_witness:
  "carpeta_disabled (run [Change (Some ''5''), Success 0 example_data, Change None]
      (ready example_page)) \<and>
   numeral_val (run [Change (Some ''5''), Success 0 example_data, Change None]
      (ready example_page)) = None \<and>
   \<not> carpeta_disabled (run [Change (Some ''5''), Success 0 example_data] (ready example_page)) \<and>
   numeral_val (run [Change (Some ''5''), Success 0 example_data] (ready example_page)) =
     Some ''5''"
proof -
  have a: "numeral_val (run [Change (Some ''5''), Success 0 example_data, Change None]
      (ready example_page)) = None"
    by (simp add: world_eval)
  have b: "numeral_val (run [Change (Some ''5''), Success 0 example_data] (ready example_page)) =
     Some ''5''"
    by (simp add: world_eval)
  from disabled_iff_parent_empty [of "[Change (Some ''5''), Success 0 example_data, Change None]"
        "\<lparr>num_value = Some []\<rparr>" example_carpeta "''/admin/transparencia/documento/add/''"]
    disabled_iff_parent_empty [of "[Change (Some ''5''), Success 0 example_data]"
        "\<lparr>num_value = Some []\<rparr>" example_carpeta "''/admin/transparencia/documento/add/''"]
  show ?thesis by (simp add: a b example_page_def [symmetric] js_truthy_def)
qed

text \<open>
  Claim C9, as the file has it. Every line of the file is blank or a \<^verbatim>\<open>//\<close> comment, so the
  file leaves no live text and loading it leaves every world as it is.
\<close>

theorem file_blank_or_comment_and_inert:
  "list_all (\<lambda>l. is_blank l \<or> is_line_comment l) source_lines \<and>
   live_text source_lines = [] \<and>
   load_file source_lines w = Some w"
proof -
  have a: "list_all (\<lambda>l. is_blank l \<or> is_line_comment l) source_lines"
    by (simp add: source_lines_def is_blank_def is_line_comment_def js_space_def)
  have b: "live_text source_lines = []"
    by (simp add: source_lines_def live_text_def live_of_line_def is_line_comment_def js_space_def)
  from a b show ?thesis by (simp add: load_file_def)
qed

text \<open>An instance of C9: loading the file on the example page leaves the page as rendered.\<close>

theorem file_blank_or_comment_and_inert_witness:
  "load_file source_lines example_page = Some example_page \<and>
   carpeta_options (the (load_file source_lines example_page)) = options example_carpeta"
  using file_blank_or_comment_and_inert [of example_page] by (simp add: example_page_def document_loaded_def carpeta_options_def)

text \<open>
  Claim C9 as stated fails: the third line is four spaces, not a comment, so not every line
  of the file is a comment (eleven of the 81 lines are blank).
\<close>

theorem file_blank_or_comment_and_inert_counterexample:
  "source_lines ! 2 = ''    '' \<and> \<not> is_line_comment (source_lines ! 2) \<and>
   \<not> list_all is_line_comment source_lines"
  by (simp add: source_lines_def is_line_comment_def js_space_def)

text \<open>
  Claim C10. When the page lacks the parent control or the dependent control, the
  page-load callback changes nothing, and after any sequence of events the dependent
  control is as the page rendered it, the script's two variables are unassigned, no handler
  is bound, no request is in flight and no effect has happened.
\<close>

theorem absent_control_no_action:
  assumes "n = None \<or> c = None"
  shows "ready (document_loaded n c p) = document_loaded n c p \<and>
         carpetaField (run evs (ready (document_loaded n c p))) = c \<and>
         todasLasCarpetas (run evs (ready (document_loaded n c p))) = None \<and>
         carpetasOriginales (run evs (ready (document_loaded n c p))) = None \<and>
         \<not> on_change (run evs (ready (document_loaded n c p))) \<and>
         pending (run evs (ready (document_loaded n c p))) = [] \<and>
         trace (run evs (ready (document_loaded n c p))) = []"
proof -
  have r: "ready (document_loaded n c p) = document_loaded n c p"
    using assms by (auto simp: ready_def document_loaded_def)
  have "\<not> on_change (document_loaded n c p)" "pending (document_loaded n c p) = []"
    by (simp_all add: document_loaded_def)
  from run_unbound [OF this, of evs] show ?thesis
    by (simp add: r) (simp add: document_loaded_def)
qed

text \<open>
  Two instances of C10: a page without the parent control, and a page without the dependent
  control.
\<close>

theorem absent_control_no_action_witness:
  "((None :: numeral_el option) = None \<or> Some example_carpeta = None) \<and>
   carpetaField (run [Change (Some ''5''), Success 0 example_data, Failure 0]
      (ready (document_loaded None (Some example_carpeta) ''/admin/transparencia/x/''))) =
     Some example_carpeta \<and>
   trace (run [Change (Some ''5''), Success 0 example_data, Failure 0]
      (ready (document_loaded None (Some example_carpeta) ''/admin/transparencia/x/''))) = [] \<and>
   (Some \<lparr>num_value = Some ''5''\<rparr> = None \<or> (None :: select_el option) = None) \<and>
   pending (run [Change (Some ''7'')]
      (ready (document_loaded (Some \<lparr>num_value = Some ''5''\<rparr>) None ''/admin/transparencia/x/''))) = [] \<and>
   \<not> on_change (run [Change (Some ''7'')]
      (ready (document_loaded (Some \<lparr>num_value = Some ''5''\<rparr>) None ''/admin/transparencia/x/'')))"
proof -
  have a: "(None :: numeral_el option) = None \<or> Some example_carpeta = None" by simp
  have b: "Some \<lparr>num_value = Some ''5''\<rparr> = None \<or> (None :: select_el option) = None" by simp
  note x = absent_control_no_action [OF a, of "''/admin/transparencia/x/''"
      "[Change (Some ''5''), Success 0 example_data, Failure 0]", THEN conjunct2]
  note y = absent_control_no_action [OF b, of "''/admin/transparencia/x/''" "[Change (Some ''7'')]", THEN conjunct2]
  from x y show ?thesis by simp
qed

end
